theory Spec2Isabelle
  imports Complex_Main "HOL-Library.Char_ord" "HOL-Library.List_Lexorder"
begin

section \<open>Tables\<close>

text \<open>
  A pandas DataFrame is modelled column by column: an ordered list of labelled columns,
  each column the list of its cells in row order. Labels may repeat, as they can in
  pandas. The row index is the default one (0, 1, 2, ...), which is what \<open>read_csv\<close>
  gives, so a row's index label is its position. Numbers are exact rationals; \<open>NaN\<close>
  stands for every missing value (NaN, NaT, None).
\<close>

datatype cell = NaN | Num rat | Str string | Date int

type_synonym series = "cell list"

type_synonym frame = "(string \<times> series) list"

text \<open>
  The exceptions of the code: a missing column label (\<open>KeyError\<close>), a label that selects
  several columns where one is needed (\<open>NotASeries\<close>), a non-numeric cell where a number
  is needed (\<open>TypeError\<close>), an outcome label that is not a key of \<open>results_map\<close>
  (Python's KeyError at line 22, which the specification calls UnrecognizedOutcome) and a
  date column that \<open>to_datetime\<close> rejects (\<open>MalformedDate\<close>).
\<close>

datatype error =
    KeyError string
  | NotASeries string
  | TypeError
  | UnrecognizedOutcome cell
  | MalformedDate

definition columns :: "frame \<Rightarrow> string list" where
  "columns df = map fst df"

definition cols_named :: "frame \<Rightarrow> string \<Rightarrow> series list" where
  "cols_named df c = map snd (filter (\<lambda>p. fst p = c) df)"

text \<open>\<open>df[c]\<close>, read as one column.\<close>

definition getcol :: "frame \<Rightarrow> string \<Rightarrow> error + series" where
  "getcol df c =
     (case cols_named df c of
        [] \<Rightarrow> Inl (KeyError c)
      | [xs] \<Rightarrow> Inr xs
      | _ \<Rightarrow> Inl (NotASeries c))"

text \<open>\<open>df[c] = xs\<close>: an existing label keeps its place, a new one is appended.\<close>

definition setcol :: "frame \<Rightarrow> string \<Rightarrow> series \<Rightarrow> frame" where
  "setcol df c xs =
     (if c \<in> set (columns df) then map (\<lambda>p. if fst p = c then (c, xs) else p) df
      else df @ [(c, xs)])"

text \<open>Results are threaded as Python threads exceptions: the first one ends the run.\<close>

fun bind_res :: "error + 'a \<Rightarrow> ('a \<Rightarrow> error + 'b) \<Rightarrow> error + 'b" where
  "bind_res (Inl e) f = Inl e"
| "bind_res (Inr x) f = f x"

text \<open>\<open>Series.unique()\<close>: the distinct values in order of first appearance.\<close>

definition unique :: "'a list \<Rightarrow> 'a list" where
  "unique xs = rev (remdups (rev xs))"

section \<open>Preprocessing: \<open>preprocess_match_data\<close>\<close>

text \<open>
  Line 22 of \<open>01_data_preprocessing.py\<close> selects the eighteen columns of
  \<open>column_order\<close>, so a row of the raw table is a record of those. The date, the time,
  the two team names and the venue are text; the other cells are kept as they are.
\<close>

record raw_match =
  date :: string
  time :: string
  round_col :: cell
  team :: string
  opponent :: string
  venue :: string
  gf :: cell
  ga :: cell
  result :: cell
  formation :: cell
  opp_formation :: cell
  poss :: cell
  xg :: cell
  xga :: cell
  sh :: cell
  sot :: cell
  dist_col :: cell
  season :: cell

text \<open>Lines 25-30: \<open>team_names = dict(zip(team, opponent))\<close> over the sorted distinct names.\<close>

definition team_names :: "raw_match list \<Rightarrow> (string \<times> string) list" where
  "team_names df = zip (sort (unique (map team df))) (sort (unique (map opponent df)))"

fun apply_team_names :: "(string \<times> string) list \<Rightarrow> raw_match list \<Rightarrow> error + raw_match list" where
  "apply_team_names names [] = Inr []"
| "apply_team_names names (r # rs) =
     (case map_of names (team r) of
        None \<Rightarrow> Inl (KeyError (team r))
      | Some n \<Rightarrow> bind_res (apply_team_names names rs) (\<lambda>rs'. Inr (r\<lparr>team := n\<rparr> # rs')))"

text \<open>Lines 33-34: the rows of one venue, sorted by date and then time (a stable sort).\<close>

definition venue_rows :: "string \<Rightarrow> raw_match list \<Rightarrow> raw_match list" where
  "venue_rows v df = sort_key date (sort_key time (filter (\<lambda>r. venue r = v) df))"

text \<open>
  Lines 37-50 rename the columns. A home-venue row then has \<open>home_team = team\<close> and
  \<open>away_team = opponent\<close>; an away-venue row has them the other way round. The merge key
  is \<open>(date, home_team, away_team)\<close>.
\<close>

definition home_key :: "raw_match \<Rightarrow> string \<times> string \<times> string" where
  "home_key r = (date r, team r, opponent r)"

definition away_key :: "raw_match \<Rightarrow> string \<times> string \<times> string" where
  "away_key r = (date r, opponent r, team r)"

text \<open>
  Line 55, \<open>pd.merge(df_home, away_stats_to_add, on=[...])\<close>: the default inner join, one
  output row for every pair of a left and a right row with equal keys, in the order of
  the left rows.
\<close>

definition merge_home_away :: "raw_match list \<Rightarrow> raw_match list \<Rightarrow> (raw_match \<times> raw_match) list" where
  "merge_home_away df_home df_away =
     concat (map (\<lambda>h. map (\<lambda>a. (h, a)) (filter (\<lambda>a. away_key a = home_key h) df_away)) df_home)"

text \<open>
  Lines 53-65: of the away-venue row only shots, shots on target, distance and
  possession are taken; \<open>new_order\<close> keeps eighteen columns. The date becomes the index,
  which \<open>to_csv\<close> writes as the first column.
\<close>

definition fixtures_df :: "(raw_match \<times> raw_match) list \<Rightarrow> frame" where
  "fixtures_df ms =
     [(''date'', map (\<lambda>(h, a). Str (date h)) ms),
      (''time'', map (\<lambda>(h, a). Str (time h)) ms),
      (''round'', map (\<lambda>(h, a). round_col h) ms),
      (''home_team'', map (\<lambda>(h, a). Str (team h)) ms),
      (''away_team'', map (\<lambda>(h, a). Str (opponent h)) ms),
      (''venue'', map (\<lambda>(h, a). Str (venue h)) ms),
      (''result'', map (\<lambda>(h, a). result h) ms),
      (''home_goals'', map (\<lambda>(h, a). gf h) ms),
      (''away_goals'', map (\<lambda>(h, a). ga h) ms),
      (''home_poss'', map (\<lambda>(h, a). poss h) ms),
      (''away_poss'', map (\<lambda>(h, a). poss a) ms),
      (''home_xg'', map (\<lambda>(h, a). xg h) ms),
      (''away_xg'', map (\<lambda>(h, a). xga h) ms),
      (''home_sh'', map (\<lambda>(h, a). sh h) ms),
      (''away_sh'', map (\<lambda>(h, a). sh a) ms),
      (''home_shot_on_target'', map (\<lambda>(h, a). sot h) ms),
      (''away_shot_on_target'', map (\<lambda>(h, a). sot a) ms),
      (''season'', map (\<lambda>(h, a). season h) ms)]"

text \<open>Lines 68-74: the fixtures of one season.\<close>

definition season_rows :: "rat \<Rightarrow> (raw_match \<times> raw_match) list \<Rightarrow> (raw_match \<times> raw_match) list" where
  "season_rows y ms = filter (\<lambda>(h, a). season h = Num y) ms"

definition merged_fixtures :: "raw_match list \<Rightarrow> (raw_match \<times> raw_match) list" where
  "merged_fixtures df = merge_home_away (venue_rows ''Home'' df) (venue_rows ''Away'' df)"

definition preprocess_match_data :: "raw_match list \<Rightarrow> error + (string \<times> frame) list" where
  "preprocess_match_data raw =
     bind_res (apply_team_names (team_names raw) raw) (\<lambda>df.
       (let ms = merged_fixtures df in
        Inr [(''2020-2021'', fixtures_df (season_rows 2021 ms)),
             (''2021-2022'', fixtures_df (season_rows 2022 ms)),
             (''2022-2023'', fixtures_df (season_rows 2023 ms)),
             (''2023-2024'', fixtures_df (season_rows 2024 ms)),
             (''2024-2025'', fixtures_df (season_rows 2025 ms))]))"

section \<open>Fixture Normalizer: \<open>load_and_prepare_data\<close>\<close>

definition results_map :: "cell \<Rightarrow> error + cell" where
  "results_map x =
     (if x = Str ''W'' then Inr (Num 1)
      else if x = Str ''D'' then Inr (Num 0)
      else if x = Str ''L'' then Inr (Num (- 1))
      else Inl (UnrecognizedOutcome x))"

text \<open>\<open>df['result'].apply(lambda x: results_map[x])\<close>: the first bad label raises.\<close>

fun apply_results_map :: "series \<Rightarrow> error + series" where
  "apply_results_map [] = Inr []"
| "apply_results_map (x # xs) =
     (case results_map x of
        Inl e \<Rightarrow> Inl e
      | Inr y \<Rightarrow> (case apply_results_map xs of Inl e \<Rightarrow> Inl e | Inr ys \<Rightarrow> Inr (y # ys)))"

text \<open>
  The table \<open>raw\<close> is what \<open>read_csv\<close> returned. \<open>to_datetime\<close> is the library's
  conversion of a whole column, \<open>None\<close> when it raises.
\<close>

definition load_and_prepare_data :: "(series \<Rightarrow> series option) \<Rightarrow> frame \<Rightarrow> error + frame" where
  "load_and_prepare_data to_datetime raw =
     (case getcol raw ''date'' of
        Inl e \<Rightarrow> Inl e
      | Inr ds \<Rightarrow>
          (case to_datetime ds of
             None \<Rightarrow> Inl MalformedDate
           | Some ds' \<Rightarrow>
               (let df = setcol raw ''date'' ds' in
                (case getcol df ''result'' of
                   Inl e \<Rightarrow> Inl e
                 | Inr rs \<Rightarrow>
                     (case apply_results_map rs of
                        Inl e \<Rightarrow> Inl e
                      | Inr rs' \<Rightarrow> Inr (setcol df ''result'' rs'))))))"

section \<open>Team History Builder and Rolling Form Calculator\<close>

text \<open>
  \<open>create_rolling_features\<close> reads fourteen columns by name. Their cells are read as
  typed values: a statistic is a number or missing, a date is a timestamp or missing
  (NaT), a team is any cell. A table whose statistic or date columns hold anything else
  is outside what is modelled here and is reported as \<open>TypeError\<close>.
\<close>

record fixture =
  idx :: nat
  date :: "int option"
  home_team :: cell
  away_team :: cell
  result :: "rat option"
  home_goals :: "rat option"
  away_goals :: "rat option"
  home_xg :: "rat option"
  away_xg :: "rat option"
  home_sh :: "rat option"
  away_sh :: "rat option"
  home_shot_on_target :: "rat option"
  away_shot_on_target :: "rat option"
  home_poss :: "rat option"
  away_poss :: "rat option"

fun num_of :: "cell \<Rightarrow> rat option" where
  "num_of (Num r) = Some r"
| "num_of _ = None"

fun date_of :: "cell \<Rightarrow> int option" where
  "date_of (Date d) = Some d"
| "date_of _ = None"

fun cell_of :: "rat option \<Rightarrow> cell" where
  "cell_of (Some r) = Num r"
| "cell_of None = NaN"

fun is_numeric :: "cell \<Rightarrow> bool" where
  "is_numeric NaN = True"
| "is_numeric (Num r) = True"
| "is_numeric _ = False"

fun is_datetime :: "cell \<Rightarrow> bool" where
  "is_datetime NaN = True"
| "is_datetime (Date d) = True"
| "is_datetime _ = False"

definition the_col :: "frame \<Rightarrow> string \<Rightarrow> series" where
  "the_col df c = (case cols_named df c of [] \<Rightarrow> [] | xs # _ \<Rightarrow> xs)"

definition cell_at :: "frame \<Rightarrow> string \<Rightarrow> nat \<Rightarrow> cell" where
  "cell_at df c i = (let xs = the_col df c in if i < length xs then xs ! i else NaN)"

text \<open>The columns the loop body reads, in the order in which lines 41-65 first touch them.\<close>

definition stat_columns :: "string list" where
  "stat_columns =
     [''result'', ''away_goals'', ''away_xg'', ''away_sh'', ''away_shot_on_target'',
      ''away_poss'', ''home_goals'', ''home_xg'', ''home_sh'', ''home_shot_on_target'',
      ''home_poss'']"

definition read_columns :: "string list" where
  "read_columns = [''home_team'', ''away_team''] @ stat_columns @ [''date'']"

fun first_error :: "frame \<Rightarrow> string list \<Rightarrow> error option" where
  "first_error df [] = None"
| "first_error df (c # cs) =
     (case getcol df c of Inl e \<Rightarrow> Some e | Inr xs \<Rightarrow> first_error df cs)"

definition well_typed :: "frame \<Rightarrow> bool" where
  "well_typed df =
     ((\<forall>c \<in> set stat_columns. list_all is_numeric (the_col df c)) \<and>
      list_all is_datetime (the_col df ''date''))"

definition fixture_at :: "frame \<Rightarrow> nat \<Rightarrow> fixture" where
  "fixture_at df i =
     \<lparr>idx = i,
      date = date_of (cell_at df ''date'' i),
      home_team = cell_at df ''home_team'' i,
      away_team = cell_at df ''away_team'' i,
      result = num_of (cell_at df ''result'' i),
      home_goals = num_of (cell_at df ''home_goals'' i),
      away_goals = num_of (cell_at df ''away_goals'' i),
      home_xg = num_of (cell_at df ''home_xg'' i),
      away_xg = num_of (cell_at df ''away_xg'' i),
      home_sh = num_of (cell_at df ''home_sh'' i),
      away_sh = num_of (cell_at df ''away_sh'' i),
      home_shot_on_target = num_of (cell_at df ''home_shot_on_target'' i),
      away_shot_on_target = num_of (cell_at df ''away_shot_on_target'' i),
      home_poss = num_of (cell_at df ''home_poss'' i),
      away_poss = num_of (cell_at df ''away_poss'' i)\<rparr>"

definition fixtures_of :: "frame \<Rightarrow> error + fixture list" where
  "fixtures_of df =
     (case first_error df read_columns of
        Some e \<Rightarrow> Inl e
      | None \<Rightarrow>
          if well_typed df
          then Inr (map (fixture_at df) [0..<length (the_col df ''home_team'')])
          else Inl TypeError)"

text \<open>
  A row of \<open>all_team_games\<close>: the fixture seen from the team. Only the columns that the
  code reads afterwards are kept. \<open>home_game\<close> is lines 56-62, \<open>away_game\<close> lines 45-54.
\<close>

record team_game =
  game_date :: "int option"
  game_result :: "rat option"
  team_goals :: "rat option"
  team_xg :: "rat option"
  team_shots :: "rat option"
  team_shots_on_target :: "rat option"
  team_poss :: "rat option"
  team_goals_conceded :: "rat option"
  team_xg_conceded :: "rat option"

definition home_game :: "fixture \<Rightarrow> team_game" where
  "home_game f =
     \<lparr>game_date = date f,
      game_result = result f,
      team_goals = home_goals f,
      team_xg = home_xg f,
      team_shots = home_sh f,
      team_shots_on_target = home_shot_on_target f,
      team_poss = home_poss f,
      team_goals_conceded = away_goals f,
      team_xg_conceded = away_xg f\<rparr>"

definition away_game :: "fixture \<Rightarrow> team_game" where
  "away_game f =
     \<lparr>game_date = date f,
      game_result = map_option (\<lambda>r. r * (- 1)) (result f),
      team_goals = away_goals f,
      team_xg = away_xg f,
      team_shots = away_sh f,
      team_shots_on_target = away_shot_on_target f,
      team_poss = away_poss f,
      team_goals_conceded = home_goals f,
      team_xg_conceded = home_xg f\<rparr>"

text \<open>\<open>==\<close> on cells and on dates: a missing value equals nothing, not even itself.\<close>

definition eq_cell :: "cell \<Rightarrow> cell \<Rightarrow> bool" where
  "eq_cell a b = (a \<noteq> NaN \<and> a = b)"

definition eq_date :: "int option \<Rightarrow> int option \<Rightarrow> bool" where
  "eq_date a b = (a \<noteq> None \<and> a = b)"

text \<open>The order of a team's sequence: by date, missing dates last.\<close>

fun date_le :: "int option \<Rightarrow> int option \<Rightarrow> bool" where
  "date_le _ None = True"
| "date_le None (Some b) = False"
| "date_le (Some a) (Some b) = (a \<le> b)"

definition by_date :: "team_game \<Rightarrow> team_game \<Rightarrow> bool" where
  "by_date a b = date_le (game_date a) (game_date b)"

text \<open>
  \<open>sort_values('date')\<close> at line 65 puts the records in ascending order of date, missing
  dates last. It is called with pandas' default sort, which is not stable: the order in
  which it leaves records of the same date is not fixed by the call. The sort is
  therefore a parameter \<open>sort_values\<close> of everything that follows. What is known of it
  is that it returns the records it was given, each as often as it was given, in date
  order.
\<close>

definition sorts_by_date :: "(team_game list \<Rightarrow> team_game list) \<Rightarrow> bool" where
  "sorts_by_date sort_values =
     (\<forall>gs. sorted_wrt by_date (sort_values gs) \<and>
           (\<forall>g. count_list (sort_values gs) g = count_list gs g))"

text \<open>
  Two such sorts, for the examples. The first is an insertion sort that keeps records of
  the same date in the order of the input; the second leaves them in the opposite order.
\<close>

fun insert_by_date :: "team_game \<Rightarrow> team_game list \<Rightarrow> team_game list" where
  "insert_by_date g [] = [g]"
| "insert_by_date g (h # hs) =
     (if date_le (game_date h) (game_date g) then h # insert_by_date g hs else g # h # hs)"

definition stable_by_date :: "team_game list \<Rightarrow> team_game list" where
  "stable_by_date gs = foldl (\<lambda>acc g. insert_by_date g acc) [] gs"

definition ties_reversed :: "team_game list \<Rightarrow> team_game list" where
  "ties_reversed gs = stable_by_date (rev gs)"

text \<open>Line 65: the team's home and away records, concatenated and sorted.\<close>

definition all_team_games ::
  "(team_game list \<Rightarrow> team_game list) \<Rightarrow> fixture list \<Rightarrow> cell \<Rightarrow> team_game list" where
  "all_team_games sort_values fs t =
     sort_values
       (map home_game (filter (\<lambda>f. eq_cell (home_team f) t) fs) @
        map away_game (filter (\<lambda>f. eq_cell (away_team f) t) fs))"

text \<open>
  \<open>rolling(w, min_periods=m).mean()\<close>: at position \<open>i\<close> the window is the last \<open>w\<close>
  positions up to and including \<open>i\<close>; the mean is taken over its values that are not
  missing, and is missing when there are fewer than \<open>m\<close> of them (or none).
  \<open>shift(1)\<close> moves every value one position down and leaves the first one missing.
\<close>

definition window :: "nat \<Rightarrow> 'a list \<Rightarrow> nat \<Rightarrow> 'a list" where
  "window w xs i = drop (Suc i - w) (take (Suc i) xs)"

definition present :: "rat option list \<Rightarrow> rat list" where
  "present ws = map the (filter (\<lambda>x. x \<noteq> None) ws)"

definition mean_of :: "nat \<Rightarrow> rat option list \<Rightarrow> rat option" where
  "mean_of m ws =
     (let vs = present ws in
      if vs = [] \<or> length vs < m then None else Some (sum_list vs / of_nat (length vs)))"

definition rolling_mean :: "nat \<Rightarrow> nat \<Rightarrow> rat option list \<Rightarrow> rat option list" where
  "rolling_mean w m xs = map (\<lambda>i. mean_of m (window w xs i)) [0..<length xs]"

definition shift :: "rat option list \<Rightarrow> rat option list" where
  "shift xs = (case xs of [] \<Rightarrow> [] | _ # _ \<Rightarrow> None # butlast xs)"

definition last_5 :: "(team_game \<Rightarrow> rat option) \<Rightarrow> team_game list \<Rightarrow> rat option list" where
  "last_5 stat gs = shift (rolling_mean 5 1 (map stat gs))"

record rolling_stats =
  form_last_5 :: "rat option"
  avg_goals_last_5 :: "rat option"
  avg_goals_conceded_last_5 :: "rat option"
  avg_xg_last_5 :: "rat option"
  avg_xg_conceded_last_5 :: "rat option"
  avg_poss_last_5 :: "rat option"
  avg_shots_last_5 :: "rat option"
  avg_shots_on_target_last_5 :: "rat option"

text \<open>Lines 68-75: the eight rolling columns of \<open>all_team_games\<close>, row by row.\<close>

definition rolling_features :: "team_game list \<Rightarrow> rolling_stats list" where
  "rolling_features gs =
     map (\<lambda>i.
       \<lparr>form_last_5 = last_5 game_result gs ! i,
        avg_goals_last_5 = last_5 team_goals gs ! i,
        avg_goals_conceded_last_5 = last_5 team_goals_conceded gs ! i,
        avg_xg_last_5 = last_5 team_xg gs ! i,
        avg_xg_conceded_last_5 = last_5 team_xg_conceded gs ! i,
        avg_poss_last_5 = last_5 team_poss gs ! i,
        avg_shots_last_5 = last_5 team_shots gs ! i,
        avg_shots_on_target_last_5 = last_5 team_shots_on_target gs ! i\<rparr>)
       [0..<length gs]"

section \<open>Fixture Feature Joiner\<close>

definition nrows :: "frame \<Rightarrow> nat" where
  "nrows df = (case df of [] \<Rightarrow> 0 | p # _ \<Rightarrow> length (snd p))"

text \<open>
  \<open>df.loc[i, c] = v\<close>: writes one cell; a label the table does not have yet becomes a new
  last column, missing everywhere else.
\<close>

definition set_cell :: "nat \<Rightarrow> string \<Rightarrow> cell \<Rightarrow> frame \<Rightarrow> frame" where
  "set_cell i c v df =
     (if c \<in> set (columns df) then map (\<lambda>p. if fst p = c then (c, (snd p)[i := v]) else p) df
      else df @ [(c, (replicate (nrows df) NaN)[i := v])])"

definition stat_values :: "rolling_stats \<Rightarrow> (string \<times> rat option) list" where
  "stat_values s =
     [(''form_last_5'', form_last_5 s),
      (''avg_goals_last_5'', avg_goals_last_5 s),
      (''avg_goals_conceded_last_5'', avg_goals_conceded_last_5 s),
      (''avg_xg_last_5'', avg_xg_last_5 s),
      (''avg_xg_conceded_last_5'', avg_xg_conceded_last_5 s),
      (''avg_poss_last_5'', avg_poss_last_5 s),
      (''avg_shots_last_5'', avg_shots_last_5 s),
      (''avg_shots_on_target_last_5'', avg_shots_on_target_last_5 s)]"

text \<open>Lines 83-90 and 98-105: the eight assignments for one fixture and one side.\<close>

definition write_stats :: "string \<Rightarrow> nat \<Rightarrow> rolling_stats \<Rightarrow> frame \<Rightarrow> frame" where
  "write_stats side i s df =
     fold (\<lambda>(c, v). set_cell i (side @ c) (cell_of v)) (stat_values s) df"

text \<open>
  Lines 80-82 and 95-97: \<open>team_stats\<close> are the records of the team whose date equals
  the fixture's date. When there is at least one, the first is used (\<open>.iloc[0]\<close>); when
  there is none, nothing is written.
\<close>

definition team_stats :: "(team_game \<times> rolling_stats) list \<Rightarrow> int option \<Rightarrow> (team_game \<times> rolling_stats) list" where
  "team_stats games match_date = filter (\<lambda>(g, s). eq_date (game_date g) match_date) games"

definition first_record :: "(team_game \<times> rolling_stats) list \<Rightarrow> int option \<Rightarrow> rolling_stats option" where
  "first_record games match_date =
     (case team_stats games match_date of [] \<Rightarrow> None | (g, s) # _ \<Rightarrow> Some s)"

definition map_back :: "string \<Rightarrow> (team_game \<times> rolling_stats) list \<Rightarrow> fixture \<Rightarrow> frame \<Rightarrow> frame" where
  "map_back side games f df =
     (case first_record games (date f) of
        None \<Rightarrow> df
      | Some s \<Rightarrow> write_stats side (idx f) s df)"

text \<open>Lines 65-75: \<open>all_team_games\<close> with its eight rolling columns.\<close>

definition team_history ::
  "(team_game list \<Rightarrow> team_game list) \<Rightarrow> fixture list \<Rightarrow> cell \<Rightarrow> (team_game \<times> rolling_stats) list" where
  "team_history sort_values fs t =
     (let gs = all_team_games sort_values fs t in zip gs (rolling_features gs))"

text \<open>
  One pass of the loop of line 39. The loop writes only the sixteen prefixed columns,
  never one of the columns it reads, so the fixtures read from the input table are the
  ones every pass sees.
\<close>

definition team_pass ::
  "(team_game list \<Rightarrow> team_game list) \<Rightarrow> fixture list \<Rightarrow> cell \<Rightarrow> frame \<Rightarrow> frame" where
  "team_pass sort_values fs t df =
     (let games = team_history sort_values fs t;
          df1 = fold (map_back ''home_'' games) (filter (\<lambda>f. eq_cell (home_team f) t) fs) df
      in fold (map_back ''away_'' games) (filter (\<lambda>f. eq_cell (away_team f) t) fs) df1)"

definition create_rolling_features ::
  "(team_game list \<Rightarrow> team_game list) \<Rightarrow> frame \<Rightarrow> error + frame" where
  "create_rolling_features sort_values df =
     bind_res (getcol df ''home_team'') (\<lambda>teams.
       if teams = [] then Inr df
       else bind_res (fixtures_of df) (\<lambda>fs.
              Inr (fold (team_pass sort_values fs) (unique teams) df)))"

section \<open>Categorical Encoder: \<open>encode_teams\<close>\<close>

text \<open>
  \<open>get_dummies\<close> encodes the columns of text: one indicator column per distinct value,
  in sorted order, named prefix, underscore, value; a missing cell is 0 in all of them.
  With two prefixes given it raises unless both columns are columns of text.
\<close>

definition levels :: "series \<Rightarrow> string list" where
  "levels xs = sort (remdups (concat (map (\<lambda>c. case c of Str s \<Rightarrow> [s] | _ \<Rightarrow> []) xs)))"

definition dummies :: "string \<Rightarrow> series \<Rightarrow> frame" where
  "dummies prefix xs =
     map (\<lambda>l. (prefix @ ''_'' @ l, map (\<lambda>c. if c = Str l then Num 1 else Num 0) xs)) (levels xs)"

fun is_text :: "cell \<Rightarrow> bool" where
  "is_text NaN = True"
| "is_text (Str s) = True"
| "is_text _ = False"

definition text_column :: "series \<Rightarrow> bool" where
  "text_column xs = (list_all is_text xs \<and> (xs = [] \<or> list_ex (\<lambda>c. c \<noteq> NaN) xs))"

definition encode_teams :: "frame \<Rightarrow> error + frame" where
  "encode_teams df =
     bind_res (getcol df ''home_team'') (\<lambda>hs.
     bind_res (getcol df ''away_team'') (\<lambda>as.
       if text_column hs \<and> text_column as
       then Inr (df @ dummies ''home'' hs @ dummies ''away'' as)
       else Inl TypeError))"

section \<open>Comparison Feature Generator: \<open>create_comparison_features\<close>\<close>

fun sub_cell :: "cell \<Rightarrow> cell \<Rightarrow> cell" where
  "sub_cell (Num a) (Num b) = Num (a - b)"
| "sub_cell _ _ = NaN"

text \<open>\<open>df[a] - df[b]\<close>, for columns of numbers.\<close>

definition difference :: "frame \<Rightarrow> string \<Rightarrow> string \<Rightarrow> error + series" where
  "difference df a b =
     bind_res (getcol df a) (\<lambda>xs.
     bind_res (getcol df b) (\<lambda>ys.
       if list_all is_numeric xs \<and> list_all is_numeric ys
       then Inr (map (\<lambda>(x, y). sub_cell x y) (zip xs ys))
       else Inl TypeError))"

definition create_comparison_features :: "frame \<Rightarrow> error + frame" where
  "create_comparison_features df =
     bind_res (difference df ''home_form_last_5'' ''away_form_last_5'') (\<lambda>form.
     bind_res (difference df ''home_avg_goals_last_5'' ''away_avg_goals_last_5'') (\<lambda>goals.
     bind_res (difference df ''home_avg_xg_last_5'' ''away_avg_xg_last_5'') (\<lambda>xg_d.
     bind_res (difference df ''home_avg_poss_last_5'' ''away_avg_poss_last_5'') (\<lambda>poss_d.
     bind_res (difference df ''away_avg_goals_conceded_last_5'' ''home_avg_goals_conceded_last_5'') (\<lambda>defensive.
       Inr (setcol (setcol (setcol (setcol (setcol df
              ''form_difference'' form)
              ''goals_difference'' goals)
              ''xg_difference'' xg_d)
              ''poss_difference'' poss_d)
              ''defensive_difference'' defensive))))))"

section \<open>\<open>clean_data\<close>\<close>

text \<open>\<open>df.drop(columns=cs)\<close>: raises on a label the table does not have.\<close>

definition drop_columns :: "frame \<Rightarrow> string list \<Rightarrow> error + frame" where
  "drop_columns df cs =
     (case filter (\<lambda>c. c \<notin> set (columns df)) cs of
        [] \<Rightarrow> Inr (filter (\<lambda>p. fst p \<notin> set cs) df)
      | c # _ \<Rightarrow> Inl (KeyError c))"

definition clean_data :: "frame \<Rightarrow> string list option \<Rightarrow> error + frame" where
  "clean_data df columns_to_drop =
     (let cs0 = (case columns_to_drop of
                   None \<Rightarrow> [''season'', ''home_formation'', ''away_formaation'']
                 | Some cs \<Rightarrow> cs);
          cs = filter (\<lambda>col. col \<in> set (columns df)) cs0
      in if cs \<noteq> [] then drop_columns df cs else Inr df)"

section \<open>The pipeline: \<open>process_season_data\<close>\<close>

text \<open>The four stages that follow the loading, as lines 190-199 chain them.\<close>

definition feature_stages ::
  "(team_game list \<Rightarrow> team_game list) \<Rightarrow> frame \<Rightarrow> error + frame" where
  "feature_stages sort_values df =
     bind_res (create_rolling_features sort_values df) (\<lambda>df_with_rolling.
     bind_res (encode_teams df_with_rolling) (\<lambda>df_encoded.
     bind_res (create_comparison_features df_encoded) (\<lambda>df_with_comparisons.
       clean_data df_with_comparisons None)))"

definition process_season_data ::
  "(team_game list \<Rightarrow> team_game list) \<Rightarrow> (series \<Rightarrow> series option) \<Rightarrow> frame \<Rightarrow> error + frame" where
  "process_season_data sort_values to_datetime raw =
     bind_res (load_and_prepare_data to_datetime raw) (feature_stages sort_values)"

section \<open>Notions used in the statements\<close>

text \<open>
  Following the specification's words, not the code: the arithmetic mean of a statistic
  over the records at positions \<open>lo\<close> to \<open>hi\<close> inclusive of a team's sequence, taken
  over the values that are present, and missing when none is.
\<close>

definition mean_over :: "(team_game \<Rightarrow> rat option) \<Rightarrow> team_game list \<Rightarrow> nat \<Rightarrow> nat \<Rightarrow> rat option" where
  "mean_over stat gs lo hi =
     (let vs = present (map (\<lambda>j. stat (gs ! j)) [lo..<Suc hi]) in
      if vs = [] then None else Some (sum_list vs / of_nat (length vs)))"

text \<open>
  Following the specification's words: a difference of two rolling values is missing as
  soon as one of them is.
\<close>

fun minus_opt :: "rat option \<Rightarrow> rat option \<Rightarrow> rat option" where
  "minus_opt (Some a) (Some b) = Some (a - b)"
| "minus_opt _ _ = None"

text \<open>The value of a rolling or comparison feature in row \<open>i\<close>, \<open>None\<close> when missing.\<close>

definition feature :: "frame \<Rightarrow> string \<Rightarrow> nat \<Rightarrow> rat option" where
  "feature df c i = num_of (cell_at df c i)"

text \<open>An enriched table: the ten rolling columns that are compared are there, as numbers.\<close>

definition numeric_column :: "frame \<Rightarrow> string \<Rightarrow> bool" where
  "numeric_column df c = (case getcol df c of Inl e \<Rightarrow> False | Inr xs \<Rightarrow> list_all is_numeric xs)"

definition compared_columns :: "string list" where
  "compared_columns =
     [''home_form_last_5'', ''away_form_last_5'',
      ''home_avg_goals_last_5'', ''away_avg_goals_last_5'',
      ''home_avg_xg_last_5'', ''away_avg_xg_last_5'',
      ''home_avg_poss_last_5'', ''away_avg_poss_last_5'',
      ''away_avg_goals_conceded_last_5'', ''home_avg_goals_conceded_last_5'']"

definition enriched :: "frame \<Rightarrow> bool" where
  "enriched df = list_all (numeric_column df) compared_columns"

definition difference_columns :: "string list" where
  "difference_columns =
     [''form_difference'', ''goals_difference'', ''xg_difference'', ''poss_difference'',
      ''defensive_difference'']"

text \<open>The labels of the eight rolling columns, and of the sixteen columns the joiner writes.\<close>

definition rolling_labels :: "string list" where
  "rolling_labels =
     [''form_last_5'', ''avg_goals_last_5'', ''avg_goals_conceded_last_5'', ''avg_xg_last_5'',
      ''avg_xg_conceded_last_5'', ''avg_poss_last_5'', ''avg_shots_last_5'',
      ''avg_shots_on_target_last_5'']"

definition feature_labels :: "string list" where
  "feature_labels = map (\<lambda>c. ''home_'' @ c) rolling_labels @ map (\<lambda>c. ''away_'' @ c) rolling_labels"

text \<open>The identity fields of a fixture.\<close>

definition identity_columns :: "string list" where
  "identity_columns = [''date'', ''home_team'', ''away_team'']"

text \<open>A well-formed table: every column has one cell for each row.\<close>

definition rectangular :: "frame \<Rightarrow> bool" where
  "rectangular df = list_all (\<lambda>p. length (snd p) = nrows df) df"

text \<open>
  The cell assignments of the joiner, listed in the order in which the loop makes them: a
  row, a label and a value each.
\<close>

definition write_cell :: "nat \<times> string \<times> cell \<Rightarrow> frame \<Rightarrow> frame" where
  "write_cell w df = (case w of (i, c, v) \<Rightarrow> set_cell i c v df)"

definition stat_writes :: "string \<Rightarrow> nat \<Rightarrow> rolling_stats \<Rightarrow> (nat \<times> string \<times> cell) list" where
  "stat_writes side i s = map (\<lambda>(c, v). (i, side @ c, cell_of v)) (stat_values s)"

definition back_writes :: "string \<Rightarrow> (team_game \<times> rolling_stats) list \<Rightarrow> fixture \<Rightarrow> (nat \<times> string \<times> cell) list" where
  "back_writes side games f =
     (case first_record games (date f) of None \<Rightarrow> [] | Some s \<Rightarrow> stat_writes side (idx f) s)"

definition pass_writes ::
  "(team_game list \<Rightarrow> team_game list) \<Rightarrow> fixture list \<Rightarrow> cell \<Rightarrow> (nat \<times> string \<times> cell) list" where
  "pass_writes sort_values fs t =
     concat (map (back_writes ''home_'' (team_history sort_values fs t))
               (filter (\<lambda>f. eq_cell (home_team f) t) fs)) @
     concat (map (back_writes ''away_'' (team_history sort_values fs t))
               (filter (\<lambda>f. eq_cell (away_team f) t) fs))"

section \<open>Example tables\<close>

text \<open>A record of the raw table; only the date, the two teams and the venue vary.\<close>

definition raw_row :: "string \<Rightarrow> string \<Rightarrow> string \<Rightarrow> string \<Rightarrow> raw_match" where
  "raw_row d t opp v =
     \<lparr>raw_match.date = d, time = ''15:00'', round_col = Str ''Matchweek 1'', team = t, opponent = opp,
      venue = v, gf = Num 1, ga = Num 0, raw_match.result = Str ''W'', formation = Str ''4-3-3'',
      opp_formation = Str ''4-4-2'', poss = Num 55, xg = Num 1, xga = Num 1, sh = Num 10,
      sot = Num 4, dist_col = Num 17, season = Num 2021\<rparr>"

text \<open>
  A raw table with one complete match and one home-venue record that has no away-venue
  counterpart.
\<close>

definition unmatched_raw :: "raw_match list" where
  "unmatched_raw =
     [raw_row ''2020-09-12'' ''Arsenal'' ''Chelsea'' ''Home'',
      raw_row ''2020-09-12'' ''Chelsea'' ''Arsenal'' ''Away'',
      raw_row ''2020-09-19'' ''Chelsea'' ''Arsenal'' ''Home'']"

text \<open>
  A raw table in which the away-venue record of one match occurs twice: Arsenal at home
  to Chelsea, once from Arsenal's side and twice from Chelsea's.
\<close>

definition duplicated_raw :: "raw_match list" where
  "duplicated_raw =
     [raw_row ''2020-09-12'' ''Arsenal'' ''Chelsea'' ''Home'',
      raw_row ''2020-09-12'' ''Chelsea'' ''Arsenal'' ''Away'',
      raw_row ''2020-09-12'' ''Chelsea'' ''Arsenal'' ''Away'']"

text \<open>Two tables as read from a file: one with the three outcome labels, one with a label X.\<close>

definition raw_ok :: frame where
  "raw_ok = [(''date'', [Str ''2020-09-12'', Str ''2020-09-13'', Str ''2020-09-14'']),
             (''home_team'', [Str ''A'', Str ''B'', Str ''C'']),
             (''result'', [Str ''W'', Str ''D'', Str ''L''])]"

definition raw_bad :: frame where
  "raw_bad = [(''date'', [Str ''2020-09-12'', Str ''2020-09-13'']),
              (''home_team'', [Str ''A'', Str ''B'']),
              (''result'', [Str ''W'', Str ''X''])]"

text \<open>A stand-in for the date conversion: every text becomes a timestamp.\<close>

definition to_datetime_ex :: "series \<Rightarrow> series option" where
  "to_datetime_ex ds = Some (map (\<lambda>c. case c of Str s \<Rightarrow> Date (int (length s)) | _ \<Rightarrow> NaN) ds)"

text \<open>
  Six fixtures of three teams. Team A wins, wins, loses, draws, wins and loses, home and
  away in turn.
\<close>

definition season_ex :: frame where
  "season_ex =
     [(''date'', [Date 1, Date 2, Date 3, Date 4, Date 5, Date 6]),
      (''home_team'', [Str ''A'', Str ''B'', Str ''A'', Str ''C'', Str ''A'', Str ''B'']),
      (''away_team'', [Str ''B'', Str ''A'', Str ''C'', Str ''A'', Str ''B'', Str ''A'']),
      (''result'', [Num 1, Num (- 1), Num (- 1), Num 0, Num 1, Num 1]),
      (''home_goals'', [Num 2, Num 0, Num 0, Num 1, Num 3, Num 2]),
      (''away_goals'', [Num 1, Num 1, Num 2, Num 1, Num 0, Num 0]),
      (''home_xg'', [Num (3 / 2), Num (1 / 2), Num 1, Num 1, Num 2, NaN]),
      (''away_xg'', [Num 1, Num 1, Num (3 / 2), Num 1, Num (1 / 2), Num 1]),
      (''home_sh'', [Num 10, Num 8, Num 9, Num 7, Num 12, Num 11]),
      (''away_sh'', [Num 6, Num 9, Num 10, Num 7, Num 5, Num 4]),
      (''home_shot_on_target'', [Num 4, Num 2, Num 3, Num 3, Num 6, Num 5]),
      (''away_shot_on_target'', [Num 2, Num 3, Num 5, Num 3, Num 1, Num 1]),
      (''home_poss'', [Num 60, Num 45, Num 50, Num 50, Num 65, Num 55]),
      (''away_poss'', [Num 40, Num 55, Num 50, Num 50, Num 35, Num 45]),
      (''season'', [Num 2021, Num 2021, Num 2021, Num 2021, Num 2021, Num 2021])]"

definition fixtures_ex :: "fixture list" where
  "fixtures_ex = map (fixture_at season_ex) [0..<6]"

text \<open>Team A's six matches in date order, from its own side.\<close>

definition games_ex :: "team_game list" where
  "games_ex =
     [\<lparr>game_date = Some 1, game_result = Some 1, team_goals = Some 2, team_xg = Some (3 / 2),
       team_shots = Some 10, team_shots_on_target = Some 4, team_poss = Some 60,
       team_goals_conceded = Some 1, team_xg_conceded = Some 1\<rparr>,
      \<lparr>game_date = Some 2, game_result = Some 1, team_goals = Some 1, team_xg = Some 1,
       team_shots = Some 9, team_shots_on_target = Some 3, team_poss = Some 55,
       team_goals_conceded = Some 0, team_xg_conceded = Some (1 / 2)\<rparr>,
      \<lparr>game_date = Some 3, game_result = Some (- 1), team_goals = Some 0, team_xg = Some 1,
       team_shots = Some 9, team_shots_on_target = Some 3, team_poss = Some 50,
       team_goals_conceded = Some 2, team_xg_conceded = Some (3 / 2)\<rparr>,
      \<lparr>game_date = Some 4, game_result = Some 0, team_goals = Some 1, team_xg = Some 1,
       team_shots = Some 7, team_shots_on_target = Some 3, team_poss = Some 50,
       team_goals_conceded = Some 1, team_xg_conceded = Some 1\<rparr>,
      \<lparr>game_date = Some 5, game_result = Some 1, team_goals = Some 3, team_xg = Some 2,
       team_shots = Some 12, team_shots_on_target = Some 6, team_poss = Some 65,
       team_goals_conceded = Some 0, team_xg_conceded = Some (1 / 2)\<rparr>,
      \<lparr>game_date = Some 6, game_result = Some (- 1), team_goals = Some 0, team_xg = Some 1,
       team_shots = Some 4, team_shots_on_target = Some 1, team_poss = Some 45,
       team_goals_conceded = Some 2, team_xg_conceded = None\<rparr>]"

text \<open>
  Four fixtures. Team A plays twice on day 2, at home against C and away at B: the lookup
  for that day finds two records of A. The last fixture has no date.
\<close>

definition same_day_ex :: frame where
  "same_day_ex =
     [(''date'', [Date 1, Date 2, Date 2, NaN]),
      (''home_team'', [Str ''A'', Str ''A'', Str ''B'', Str ''B'']),
      (''away_team'', [Str ''B'', Str ''C'', Str ''A'', Str ''A'']),
      (''result'', [Num 1, Num (- 1), Num 0, Num 1]),
      (''home_goals'', [Num 2, Num 0, Num 1, Num 2]),
      (''away_goals'', [Num 1, Num 1, Num 1, Num 0]),
      (''home_xg'', [Num (3 / 2), Num 1, Num 1, Num 2]),
      (''away_xg'', [Num 1, Num 1, Num 1, Num 1]),
      (''home_sh'', [Num 10, Num 8, Num 9, Num 11]),
      (''away_sh'', [Num 6, Num 9, Num 7, Num 5]),
      (''home_shot_on_target'', [Num 4, Num 2, Num 3, Num 5]),
      (''away_shot_on_target'', [Num 2, Num 3, Num 3, Num 1]),
      (''home_poss'', [Num 60, Num 45, Num 50, Num 55]),
      (''away_poss'', [Num 40, Num 55, Num 50, Num 45])]"

definition same_day_fixtures :: "fixture list" where
  "same_day_fixtures = map (fixture_at same_day_ex) [0..<4]"

text \<open>Two fixtures in which team B plays away twice and never at home.\<close>

definition away_only_ex :: frame where
  "away_only_ex =
     [(''date'', [Date 1, Date 2]),
      (''home_team'', [Str ''A'', Str ''C'']),
      (''away_team'', [Str ''B'', Str ''B'']),
      (''result'', [Num 1, Num 0]),
      (''home_goals'', [Num 2, Num 1]),
      (''away_goals'', [Num 1, Num 1]),
      (''home_xg'', [Num (3 / 2), Num 1]),
      (''away_xg'', [Num 1, Num 1]),
      (''home_sh'', [Num 10, Num 8]),
      (''away_sh'', [Num 6, Num 9]),
      (''home_shot_on_target'', [Num 4, Num 2]),
      (''away_shot_on_target'', [Num 2, Num 3]),
      (''home_poss'', [Num 60, Num 45]),
      (''away_poss'', [Num 40, Num 55])]"

definition away_only_fixtures :: "fixture list" where
  "away_only_fixtures = map (fixture_at away_only_ex) [0..<2]"

text \<open>A table of one fixture, with only the two team columns.\<close>

definition teams_ex :: frame where
  "teams_ex = [(''home_team'', [Str ''A'']), (''away_team'', [Str ''B''])]"

definition encoded_ex :: frame where
  "encoded_ex = teams_ex @ [(''home_A'', [Num 1]), (''away_B'', [Num 1])]"

text \<open>Two rows with their rolling columns; the second row has no home form yet.\<close>

definition enriched_ex :: frame where
  "enriched_ex =
     [(''home_form_last_5'', [Num 1, NaN]),
      (''away_form_last_5'', [Num (2 / 5), Num 1]),
      (''home_avg_goals_last_5'', [Num 2, Num 1]),
      (''away_avg_goals_last_5'', [Num 1, Num 1]),
      (''home_avg_xg_last_5'', [Num (3 / 2), NaN]),
      (''away_avg_xg_last_5'', [Num 1, NaN]),
      (''home_avg_poss_last_5'', [Num 60, Num 50]),
      (''away_avg_poss_last_5'', [Num 40, Num 50]),
      (''away_avg_goals_conceded_last_5'', [Num 2, Num 1]),
      (''home_avg_goals_conceded_last_5'', [Num (1 / 2), Num 1])]"

text \<open>Two fixtures between two teams, home and away in turn.\<close>

definition two_fixtures :: frame where
  "two_fixtures =
     [(''date'', [Date 1, Date 2]),
      (''home_team'', [Str ''A'', Str ''B'']),
      (''away_team'', [Str ''B'', Str ''A'']),
      (''result'', [Num 1, Num 0]),
      (''home_goals'', [Num 2, Num 1]),
      (''away_goals'', [Num 1, Num 1]),
      (''home_xg'', [Num (3 / 2), Num 1]),
      (''away_xg'', [Num 1, NaN]),
      (''home_sh'', [Num 10, Num 8]),
      (''away_sh'', [Num 6, Num 9]),
      (''home_shot_on_target'', [Num 4, Num 2]),
      (''away_shot_on_target'', [Num 2, Num 3]),
      (''home_poss'', [Num 60, Num 45]),
      (''away_poss'', [Num 40, Num 55]),
      (''season'', [Num 2021, Num 2021])]"

section \<open>Properties\<close>

subsection \<open>Columns and cells\<close>

lemma cols_named_setcol_other:
  "c' \<noteq> c \<Longrightarrow> cols_named (setcol df c xs) c' = cols_named df c'"
proof -
  assume ne: "c' \<noteq> c"
  have "filter (\<lambda>p. fst p = c') (map (\<lambda>p. if fst p = c then (c, xs) else p) df)
        = filter (\<lambda>p. fst p = c') df"
    using ne by (induction df) auto
  with ne show ?thesis by (simp add: cols_named_def setcol_def)
qed

lemma columns_setcol_present:
  "c \<in> set (columns df) \<Longrightarrow> columns (setcol df c xs) = columns df"
  by (simp add: setcol_def columns_def comp_def if_distrib cong: if_cong)

lemma getcol_Inr_present: "getcol df c = Inr xs \<Longrightarrow> c \<in> set (columns df)"
proof -
  assume "getcol df c = Inr xs"
  then have "filter (\<lambda>p. fst p = c) df \<noteq> []"
    by (auto simp: getcol_def cols_named_def split: list.splits)
  then obtain p where "p \<in> set df" "fst p = c"
    by (auto simp: filter_empty_conv)
  then show ?thesis by (auto simp: columns_def)
qed

lemma getcol_setcol_same:
  "getcol df c = Inr xs \<Longrightarrow> getcol (setcol df c ys) c = Inr ys"
proof -
  assume a: "getcol df c = Inr xs"
  then have pres: "c \<in> set (columns df)" by (rule getcol_Inr_present)
  from a have one: "filter (\<lambda>p. fst p = c) df = [(c, xs)]"
  proof -
    from a obtain p where f: "filter (\<lambda>p. fst p = c) df = [p]" and p: "snd p = xs"
      by (auto simp: getcol_def cols_named_def split: list.splits)
    have "p \<in> set (filter (\<lambda>p. fst p = c) df)" by (simp add: f)
    then have "fst p = c" by simp
    with f p show ?thesis by (cases p) simp
  qed
  have "filter (\<lambda>p. fst p = c) (map (\<lambda>p. if fst p = c then (c, ys) else p) df)
        = map (\<lambda>p. (c, ys)) (filter (\<lambda>p. fst p = c) df)"
    by (induction df) auto
  with one pres show ?thesis
    by (simp add: getcol_def cols_named_def setcol_def)
qed

lemma getcol_setcol_other:
  "c' \<noteq> c \<Longrightarrow> getcol (setcol df c xs) c' = getcol df c'"
  by (simp add: getcol_def cols_named_setcol_other)

lemma cols_named_setcol_same:
  "cols_named (setcol df c xs) c = replicate (max 1 (length (cols_named df c))) xs"
proof (cases "c \<in> set (columns df)")
  case True
  have "map snd (filter (\<lambda>p. fst p = c) (map (\<lambda>p. if fst p = c then (c, xs) else p) df))
        = replicate (length (filter (\<lambda>p. fst p = c) df)) xs"
    by (induction df) auto
  moreover from True have "filter (\<lambda>p. fst p = c) df \<noteq> []"
    by (auto simp: columns_def filter_empty_conv)
  ultimately show ?thesis using True
    by (simp add: cols_named_def setcol_def max_def Suc_le_eq)
next
  case False
  then have "filter (\<lambda>p. fst p = c) df = []"
    by (auto simp: columns_def filter_empty_conv)
  with False show ?thesis by (simp add: cols_named_def setcol_def)
qed

lemma the_col_setcol_same: "the_col (setcol df c xs) c = xs"
  by (simp add: the_col_def cols_named_setcol_same max_def split: list.splits)
     (metis Cons_replicate_eq list.inject replicate_Suc)

lemma the_col_setcol_other: "c' \<noteq> c \<Longrightarrow> the_col (setcol df c xs) c' = the_col df c'"
  by (simp add: the_col_def cols_named_setcol_other)

lemma columns_setcol:
  "columns (setcol df c xs) = (if c \<in> set (columns df) then columns df else columns df @ [c])"
  by (simp add: columns_setcol_present) (simp add: setcol_def columns_def)

lemma getcol_the_col: "getcol df c = Inr xs \<Longrightarrow> the_col df c = xs"
  by (auto simp: getcol_def the_col_def split: list.splits)

lemma the_col_cong: "cols_named d c = cols_named df c \<Longrightarrow> the_col d c = the_col df c"
  by (simp add: the_col_def)

lemma cols_named_append: "cols_named (df @ df') c = cols_named df c @ cols_named df' c"
  by (simp add: cols_named_def)

lemma bind_res_Inr: "bind_res m f = Inr y \<longleftrightarrow> (\<exists>x. m = Inr x \<and> f x = Inr y)"
  by (cases m) auto

lemma cols_named_set_cell_other:
  assumes "c' \<noteq> c"
  shows "cols_named (set_cell i c v df) c' = cols_named df c'"
proof -
  have "filter (\<lambda>p. fst p = c') (map (\<lambda>p. if fst p = c then (c, (snd p)[i := v]) else p) df)
        = filter (\<lambda>p. fst p = c') df"
    using assms by (induction df) auto
  with assms show ?thesis by (simp add: cols_named_def set_cell_def)
qed

lemma the_col_set_cell_other:
  "c' \<noteq> c \<Longrightarrow> the_col (set_cell i c v df) c' = the_col df c'"
  by (simp add: the_col_def cols_named_set_cell_other)

lemma the_col_set_cell_same:
  "the_col (set_cell i c v df) c =
     (if c \<in> set (columns df) then (the_col df c)[i := v] else (replicate (nrows df) NaN)[i := v])"
proof (cases "c \<in> set (columns df)")
  case True
  have "map snd (filter (\<lambda>p. fst p = c) (map (\<lambda>p. if fst p = c then (c, (snd p)[i := v]) else p) df))
        = map (\<lambda>xs. xs[i := v]) (map snd (filter (\<lambda>p. fst p = c) df))"
    by (induction df) auto
  moreover from True obtain p ps where "filter (\<lambda>p. fst p = c) df = p # ps"
    by (cases "filter (\<lambda>p. fst p = c) df") (auto simp: columns_def filter_empty_conv)
  ultimately show ?thesis using True
    by (simp add: the_col_def cols_named_def set_cell_def)
next
  case False
  then have "filter (\<lambda>p. fst p = c) df = []"
    by (auto simp: columns_def filter_empty_conv)
  with False show ?thesis
    by (simp add: the_col_def cols_named_def set_cell_def)
qed

lemma rectangular_the_col:
  assumes "rectangular df" and "c \<in> set (columns df)"
  shows "length (the_col df c) = nrows df"
proof -
  from assms(2) obtain p ps where f: "filter (\<lambda>p. fst p = c) df = p # ps"
    by (cases "filter (\<lambda>p. fst p = c) df") (auto simp: columns_def filter_empty_conv)
  then have "p \<in> set (filter (\<lambda>p. fst p = c) df)" by simp
  then have "p \<in> set df" by simp
  with assms(1) have "length (snd p) = nrows df"
    by (simp add: rectangular_def list_all_iff)
  with f show ?thesis by (simp add: the_col_def cols_named_def)
qed

lemma absent_the_col: "c \<notin> set (columns df) \<Longrightarrow> the_col df c = []"
proof -
  assume "c \<notin> set (columns df)"
  then have "filter (\<lambda>p. fst p = c) df = []"
    by (auto simp: columns_def filter_empty_conv)
  then show ?thesis by (simp add: the_col_def cols_named_def)
qed

lemma cell_at_set_cell:
  assumes "rectangular df" and "i < nrows df"
  shows "cell_at (set_cell i c v df) c' j = (if c' = c \<and> j = i then v else cell_at df c' j)"
proof (cases "c' = c")
  case False
  then show ?thesis by (simp add: cell_at_def the_col_set_cell_other)
next
  case True
  show ?thesis
  proof (cases "c \<in> set (columns df)")
    case present: True
    with assms have "i < length (the_col df c)" by (simp add: rectangular_the_col)
    with present True show ?thesis
      by (simp add: cell_at_def the_col_set_cell_same Let_def nth_list_update)
  next
    case absent: False
    with assms(2) True show ?thesis
      by (simp add: cell_at_def the_col_set_cell_same Let_def nth_list_update absent_the_col)
  qed
qed

lemma nrows_set_cell: "nrows (set_cell i c v df) = nrows df"
proof (cases df)
  case Nil
  then show ?thesis by (simp add: set_cell_def nrows_def columns_def)
next
  case (Cons p ps)
  then show ?thesis by (auto simp: set_cell_def nrows_def columns_def)
qed

lemma rectangular_set_cell:
  assumes "rectangular df"
  shows "rectangular (set_cell i c v df)"
  using assms
  unfolding rectangular_def nrows_set_cell
  by (auto simp: set_cell_def list_all_iff)

subsection \<open>The merge of home and away records\<close>

lemma filter_key_distinct:
  "distinct (map f xs) \<Longrightarrow> filter (\<lambda>x. f x = k) xs = (if k \<in> f ` set xs then [the (find (\<lambda>x. f x = k) xs)] else [])"
  by (induction xs) (auto simp: filter_empty_conv)

lemma map_fst_merge:
  "map fst (merge_home_away hs as) =
     concat (map (\<lambda>h. replicate (length (filter (\<lambda>a. away_key a = home_key h) as)) h) hs)"
  by (induction hs) (auto simp: merge_home_away_def comp_def map_replicate_const)

lemma map_fst_merge_distinct:
  assumes "distinct (map away_key as)"
  shows "map fst (merge_home_away hs as) = filter (\<lambda>h. home_key h \<in> away_key ` set as) hs"
proof -
  have "\<And>h. replicate (length (filter (\<lambda>a. away_key a = home_key h) as)) h =
            (if home_key h \<in> away_key ` set as then [h] else [])"
    by (simp add: filter_key_distinct[OF assms])
  then show ?thesis
    by (simp add: map_fst_merge) (induction hs, auto)
qed

lemma merge_pairs:
  "(h, a) \<in> set (merge_home_away hs as) \<longleftrightarrow> h \<in> set hs \<and> a \<in> set as \<and> away_key a = home_key h"
  by (auto simp: merge_home_away_def)

lemma set_venue_rows: "set (venue_rows v df) = {r \<in> set df. venue r = v}"
  by (auto simp: venue_rows_def)

lemma nrows_fixtures_df: "nrows (fixtures_df ms) = length ms"
  by (simp add: nrows_def fixtures_df_def)

lemma preprocess_no_merge_error:
  "apply_team_names (team_names raw) raw = Inr df \<Longrightarrow> \<exists>ts. preprocess_match_data raw = Inr ts"
  by (simp add: preprocess_match_data_def Let_def)

text \<open>
  Claim C10, as amended. The merge is an inner join on date, home team and away team:
  the table has one row for every pair of a home-venue and an away-venue record with equal
  keys, in the order of the home-venue records. When no two away-venue records share a
  key, that is exactly one row for each home-venue record that has a counterpart. A
  home-venue record without one yields no row, and the merge raises nothing.
\<close>

theorem merge_is_inner_join:
  "map fst (merged_fixtures df) =
     concat (map (\<lambda>h. replicate
                   (length (filter (\<lambda>a. away_key a = home_key h) (venue_rows ''Away'' df))) h)
                 (venue_rows ''Home'' df)) \<and>
   (\<forall>h a. (h, a) \<in> set (merged_fixtures df) \<longleftrightarrow>
            h \<in> set df \<and> venue h = ''Home'' \<and> a \<in> set df \<and> venue a = ''Away'' \<and>
            away_key a = home_key h) \<and>
   (distinct (map away_key (venue_rows ''Away'' df)) \<longrightarrow>
      map fst (merged_fixtures df) =
        filter (\<lambda>h. home_key h \<in> away_key ` set (venue_rows ''Away'' df)) (venue_rows ''Home'' df)) \<and>
   nrows (fixtures_df (merged_fixtures df)) = length (merged_fixtures df) \<and>
   (\<forall>raw. apply_team_names (team_names raw) raw = Inr df \<longrightarrow>
          (\<exists>ts. preprocess_match_data raw = Inr ts))"
proof (intro conjI allI impI)
  show "map fst (merged_fixtures df) =
     concat (map (\<lambda>h. replicate
                   (length (filter (\<lambda>a. away_key a = home_key h) (venue_rows ''Away'' df))) h)
                 (venue_rows ''Home'' df))"
    unfolding merged_fixtures_def by (rule map_fst_merge)
  show "(h, a) \<in> set (merged_fixtures df) \<longleftrightarrow>
            h \<in> set df \<and> venue h = ''Home'' \<and> a \<in> set df \<and> venue a = ''Away'' \<and>
            away_key a = home_key h" for h a
    unfolding merged_fixtures_def merge_pairs set_venue_rows by auto
  show "map fst (merged_fixtures df) =
        filter (\<lambda>h. home_key h \<in> away_key ` set (venue_rows ''Away'' df)) (venue_rows ''Home'' df)"
    if "distinct (map away_key (venue_rows ''Away'' df))"
    unfolding merged_fixtures_def using that by (rule map_fst_merge_distinct)
  show "nrows (fixtures_df (merged_fixtures df)) = length (merged_fixtures df)"
    by (rule nrows_fixtures_df)
  show "\<exists>ts. preprocess_match_data raw = Inr ts"
    if "apply_team_names (team_names raw) raw = Inr df" for raw
    using that by (rule preprocess_no_merge_error)
qed

lemma standardize_unmatched:
  "apply_team_names (team_names unmatched_raw) unmatched_raw = Inr unmatched_raw"
  by code_simp

lemma away_unmatched:
  "venue_rows ''Away'' unmatched_raw = [raw_row ''2020-09-12'' ''Chelsea'' ''Arsenal'' ''Away'']"
  by code_simp

lemma home_unmatched:
  "venue_rows ''Home'' unmatched_raw =
     [raw_row ''2020-09-12'' ''Arsenal'' ''Chelsea'' ''Home'',
      raw_row ''2020-09-19'' ''Chelsea'' ''Arsenal'' ''Home'']"
  by code_simp

theorem merge_is_inner_join_witness:
  "distinct (map away_key (venue_rows ''Away'' unmatched_raw)) \<and>
   map fst (merged_fixtures unmatched_raw) = [raw_row ''2020-09-12'' ''Arsenal'' ''Chelsea'' ''Home''] \<and>
   (\<exists>ts. preprocess_match_data unmatched_raw = Inr ts)"
proof -
  have d: "distinct (map away_key (venue_rows ''Away'' unmatched_raw))"
    by (simp add: away_unmatched)
  from merge_is_inner_join[of unmatched_raw] d
  have "map fst (merged_fixtures unmatched_raw) =
        filter (\<lambda>h. home_key h \<in> away_key ` set (venue_rows ''Away'' unmatched_raw))
               (venue_rows ''Home'' unmatched_raw)"
    by blast
  also have "\<dots> = [raw_row ''2020-09-12'' ''Arsenal'' ''Chelsea'' ''Home'']"
    by (simp add: away_unmatched home_unmatched home_key_def away_key_def raw_row_def)
  finally have m: "map fst (merged_fixtures unmatched_raw) =
        [raw_row ''2020-09-12'' ''Arsenal'' ''Chelsea'' ''Home'']" .
  from merge_is_inner_join[of unmatched_raw] standardize_unmatched
  have "\<exists>ts. preprocess_match_data unmatched_raw = Inr ts" by blast
  with d m show ?thesis by blast
qed

theorem duplicate_away_record_counterexample:
  "length (venue_rows ''Home'' duplicated_raw) = 1 \<and>
   length (merged_fixtures duplicated_raw) = 2 \<and>
   map fst (merged_fixtures duplicated_raw) \<noteq>
     filter (\<lambda>h. home_key h \<in> away_key ` set (venue_rows ''Away'' duplicated_raw))
            (venue_rows ''Home'' duplicated_raw) \<and>
   (\<exists>ts t. preprocess_match_data duplicated_raw = Inr ts \<and>
           map_of ts ''2020-2021'' = Some t \<and> nrows t = 2)"
proof -
  have h: "venue_rows ''Home'' duplicated_raw = [raw_row ''2020-09-12'' ''Arsenal'' ''Chelsea'' ''Home'']"
    by code_simp
  have m: "map fst (merged_fixtures duplicated_raw) =
             [raw_row ''2020-09-12'' ''Arsenal'' ''Chelsea'' ''Home'',
              raw_row ''2020-09-12'' ''Arsenal'' ''Chelsea'' ''Home'']"
    by code_simp
  have l: "length (merged_fixtures duplicated_raw) = 2"
    using arg_cong[OF m, of length] by simp
  have ne: "map fst (merged_fixtures duplicated_raw) \<noteq>
     filter (\<lambda>h. home_key h \<in> away_key ` set (venue_rows ''Away'' duplicated_raw))
            (venue_rows ''Home'' duplicated_raw)"
  proof
    assume "map fst (merged_fixtures duplicated_raw) =
     filter (\<lambda>h. home_key h \<in> away_key ` set (venue_rows ''Away'' duplicated_raw))
            (venue_rows ''Home'' duplicated_raw)"
    then have "length (map fst (merged_fixtures duplicated_raw)) \<le> length (venue_rows ''Home'' duplicated_raw)"
      by (simp only: length_filter_le)
    with l h show False by simp
  qed
  have p: "case preprocess_match_data duplicated_raw of
             Inl e \<Rightarrow> False
           | Inr ts \<Rightarrow> (case map_of ts ''2020-2021'' of None \<Rightarrow> False | Some t \<Rightarrow> nrows t = 2)"
    by code_simp
  then have "\<exists>ts t. preprocess_match_data duplicated_raw = Inr ts \<and>
           map_of ts ''2020-2021'' = Some t \<and> nrows t = 2"
    by (auto split: sum.splits option.splits)
  with h l ne show ?thesis by simp
qed

subsection \<open>The normalizer\<close>

lemma apply_results_map_Inr:
  "apply_results_map rs = Inr rs' \<Longrightarrow>
     length rs' = length rs \<and>
     (\<forall>i < length rs.
        (rs ! i = Str ''W'' \<and> rs' ! i = Num 1) \<or>
        (rs ! i = Str ''D'' \<and> rs' ! i = Num 0) \<or>
        (rs ! i = Str ''L'' \<and> rs' ! i = Num (- 1)))"
proof (induction rs arbitrary: rs')
  case Nil
  then show ?case by simp
next
  case (Cons x xs)
  from Cons.prems obtain y ys where
    y: "results_map x = Inr y" and ys: "apply_results_map xs = Inr ys" and rs': "rs' = y # ys"
    by (auto split: sum.splits)
  from y have hd: "(x = Str ''W'' \<and> y = Num 1) \<or> (x = Str ''D'' \<and> y = Num 0) \<or>
                   (x = Str ''L'' \<and> y = Num (- 1))"
    by (auto simp: results_map_def split: if_splits)
  from Cons.IH[OF ys] hd rs' show ?case
    by (auto simp: nth_Cons split: nat.splits)
qed

lemma apply_results_map_bad:
  "x \<in> set rs \<Longrightarrow> x \<notin> {Str ''W'', Str ''D'', Str ''L''} \<Longrightarrow>
     \<exists>y. apply_results_map rs = Inl (UnrecognizedOutcome y) \<and> y \<in> set rs \<and>
         y \<notin> {Str ''W'', Str ''D'', Str ''L''}"
proof (induction rs)
  case Nil
  then show ?case by simp
next
  case (Cons a rs)
  show ?case
  proof (cases "a \<in> {Str ''W'', Str ''D'', Str ''L''}")
    case True
    then obtain v where v: "results_map a = Inr v"
      by (auto simp: results_map_def)
    from True Cons.prems have "x \<in> set rs" by auto
    from Cons.IH[OF this Cons.prems(2)] v show ?thesis by auto
  next
    case False
    then have "results_map a = Inl (UnrecognizedOutcome a)"
      by (auto simp: results_map_def)
    with False show ?thesis by auto
  qed
qed

text \<open>
  Claim C7. The normalizer maps the labels W, D and L to 1, 0 and -1. A row whose label
  is none of them makes the run fail, with the outcome error whenever the date column
  was accepted (the dates are converted first). When the run succeeds, the result column
  holds the mapped values, the column labels are the input's, and every column but the
  date and the result is the input's.
\<close>

theorem load_and_prepare_data_outcomes:
  assumes res: "getcol raw ''result'' = Inr rs"
  shows "((\<exists>x \<in> set rs. x \<notin> {Str ''W'', Str ''D'', Str ''L''}) \<longrightarrow>
            (\<exists>e. load_and_prepare_data to_datetime raw = Inl e) \<and>
            (\<forall>ds ds'. getcol raw ''date'' = Inr ds \<and> to_datetime ds = Some ds' \<longrightarrow>
               (\<exists>y. load_and_prepare_data to_datetime raw = Inl (UnrecognizedOutcome y) \<and>
                    y \<in> set rs \<and> y \<notin> {Str ''W'', Str ''D'', Str ''L''}))) \<and>
         (\<forall>df. load_and_prepare_data to_datetime raw = Inr df \<longrightarrow>
            (\<exists>rs'. getcol df ''result'' = Inr rs' \<and> length rs' = length rs \<and>
               (\<forall>i < length rs.
                  (rs ! i = Str ''W'' \<and> rs' ! i = Num 1) \<or>
                  (rs ! i = Str ''D'' \<and> rs' ! i = Num 0) \<or>
                  (rs ! i = Str ''L'' \<and> rs' ! i = Num (- 1)))) \<and>
            columns df = columns raw \<and>
            (\<forall>c. c \<noteq> ''date'' \<and> c \<noteq> ''result'' \<longrightarrow> cols_named df c = cols_named raw c))"
proof (intro conjI impI allI)
  assume bad: "\<exists>x \<in> set rs. x \<notin> {Str ''W'', Str ''D'', Str ''L''}"
  then obtain y where y: "apply_results_map rs = Inl (UnrecognizedOutcome y)"
      "y \<in> set rs" "y \<notin> {Str ''W'', Str ''D'', Str ''L''}"
    using apply_results_map_bad by blast
  have res': "\<And>ds'. getcol (setcol raw ''date'' ds') ''result'' = Inr rs"
    using res by (simp add: getcol_setcol_other)
  show "\<exists>e. load_and_prepare_data to_datetime raw = Inl e"
    using y(1) res' by (auto simp: load_and_prepare_data_def Let_def split: sum.splits option.splits)
  fix ds ds'
  assume "getcol raw ''date'' = Inr ds \<and> to_datetime ds = Some ds'"
  then show "\<exists>y. load_and_prepare_data to_datetime raw = Inl (UnrecognizedOutcome y) \<and>
                 y \<in> set rs \<and> y \<notin> {Str ''W'', Str ''D'', Str ''L''}"
    using y res' by (auto simp: load_and_prepare_data_def Let_def)
next
  fix df
  assume ok: "load_and_prepare_data to_datetime raw = Inr df"
  then obtain ds ds' rs' where
    ds: "getcol raw ''date'' = Inr ds" and ds': "to_datetime ds = Some ds'" and
    rs': "apply_results_map rs = Inr rs'" and
    df: "df = setcol (setcol raw ''date'' ds') ''result'' rs'"
    using res
    by (auto simp: load_and_prepare_data_def Let_def getcol_setcol_other
             split: sum.splits option.splits)
  have g: "getcol (setcol raw ''date'' ds') ''result'' = Inr rs"
    using res by (simp add: getcol_setcol_other)
  have "getcol df ''result'' = Inr rs'"
    unfolding df using g by (rule getcol_setcol_same)
  with apply_results_map_Inr[OF rs']
  show "\<exists>rs'. getcol df ''result'' = Inr rs' \<and> length rs' = length rs \<and>
               (\<forall>i < length rs.
                  (rs ! i = Str ''W'' \<and> rs' ! i = Num 1) \<or>
                  (rs ! i = Str ''D'' \<and> rs' ! i = Num 0) \<or>
                  (rs ! i = Str ''L'' \<and> rs' ! i = Num (- 1)))"
    by blast
  have p1: "''date'' \<in> set (columns raw)" using ds by (rule getcol_Inr_present)
  have p2: "''result'' \<in> set (columns raw)"
    using res by (rule getcol_Inr_present)
  show "columns df = columns raw"
    unfolding df by (simp add: columns_setcol_present p1 p2)
  fix c
  assume "c \<noteq> ''date'' \<and> c \<noteq> ''result''"
  then show "cols_named df c = cols_named raw c"
    unfolding df by (simp add: cols_named_setcol_other)
qed

theorem load_and_prepare_data_outcomes_witness:
  "load_and_prepare_data to_datetime_ex raw_bad = Inl (UnrecognizedOutcome (Str ''X'')) \<and>
   (\<exists>df. load_and_prepare_data to_datetime_ex raw_ok = Inr df \<and>
      getcol df ''result'' = Inr [Num 1, Num 0, Num (- 1)] \<and>
      cols_named df ''home_team'' = [[Str ''A'', Str ''B'', Str ''C'']])"
proof -
  have bad: "getcol raw_bad ''result'' = Inr [Str ''W'', Str ''X'']"
    by (simp add: raw_bad_def getcol_def cols_named_def)
  have ok: "getcol raw_ok ''result'' = Inr [Str ''W'', Str ''D'', Str ''L'']"
    by (simp add: raw_ok_def getcol_def cols_named_def)
  have d: "getcol raw_bad ''date'' = Inr [Str ''2020-09-12'', Str ''2020-09-13'']"
    by (simp add: raw_bad_def getcol_def cols_named_def)
  have run: "load_and_prepare_data to_datetime_ex raw_ok =
      Inr [(''date'', [Date 10, Date 10, Date 10]),
           (''home_team'', [Str ''A'', Str ''B'', Str ''C'']),
           (''result'', [Num 1, Num 0, Num (- 1)])]"
    by (simp add: load_and_prepare_data_def raw_ok_def getcol_def cols_named_def setcol_def
          columns_def to_datetime_ex_def results_map_def)
  from load_and_prepare_data_outcomes[OF bad, of to_datetime_ex] d
  have "\<exists>y. load_and_prepare_data to_datetime_ex raw_bad = Inl (UnrecognizedOutcome y) \<and>
            y \<in> set [Str ''W'', Str ''X''] \<and> y \<notin> {Str ''W'', Str ''D'', Str ''L''}"
    by (simp add: to_datetime_ex_def)
  then have 1: "load_and_prepare_data to_datetime_ex raw_bad = Inl (UnrecognizedOutcome (Str ''X''))"
    by auto
  from load_and_prepare_data_outcomes[OF ok, of to_datetime_ex] run
  have 2: "cols_named (projr (load_and_prepare_data to_datetime_ex raw_ok)) ''home_team''
           = cols_named raw_ok ''home_team''"
    by simp
  show ?thesis using 1 2 run by (simp add: raw_ok_def getcol_def cols_named_def)
qed

subsection \<open>Team histories and rolling averages\<close>

lemma date_le_total: "date_le a b \<or> date_le b a"
  by (cases a; cases b) auto

lemma date_le_trans: "date_le a b \<Longrightarrow> date_le b c \<Longrightarrow> date_le a c"
  by (cases a; cases b; cases c) auto

lemma set_insert_by_date: "set (insert_by_date g hs) = insert g (set hs)"
  by (induction hs) auto

lemma sorted_insert_by_date:
  "sorted_wrt by_date hs \<Longrightarrow> sorted_wrt by_date (insert_by_date g hs)"
proof (induction hs)
  case Nil
  then show ?case by simp
next
  case (Cons h hs)
  show ?case
  proof (cases "date_le (game_date h) (game_date g)")
    case True
    with Cons show ?thesis by (auto simp: set_insert_by_date by_date_def)
  next
    case False
    then have gh: "date_le (game_date g) (game_date h)"
      using date_le_total by blast
    with Cons.prems False show ?thesis
      by (auto simp: by_date_def intro: date_le_trans)
  qed
qed

lemma sorted_foldl_insert:
  "sorted_wrt by_date acc \<Longrightarrow> sorted_wrt by_date (foldl (\<lambda>acc g. insert_by_date g acc) acc gs)"
  by (induction gs arbitrary: acc) (auto simp: sorted_insert_by_date)

lemma count_insert_by_date: "count_list (insert_by_date g hs) x = count_list (g # hs) x"
  by (induction hs) auto

lemma count_foldl_insert:
  "count_list (foldl (\<lambda>acc g. insert_by_date g acc) acc gs) x = count_list acc x + count_list gs x"
  by (induction gs arbitrary: acc) (auto simp: count_insert_by_date)

lemma sorts_by_date_stable: "sorts_by_date stable_by_date"
  unfolding sorts_by_date_def stable_by_date_def
  by (simp add: sorted_foldl_insert count_foldl_insert)

lemma sorts_by_date_reversed: "sorts_by_date ties_reversed"
  unfolding sorts_by_date_def ties_reversed_def stable_by_date_def
  by (simp add: sorted_foldl_insert count_foldl_insert)

lemma sorts_by_date_set:
  assumes "sorts_by_date srt"
  shows "set (srt gs) = set gs"
proof -
  have "count_list (srt gs) g = count_list gs g" for g
    using assms unfolding sorts_by_date_def by blast
  then have "g \<in> set (srt gs) \<longleftrightarrow> g \<in> set gs" for g
    by (metis count_list_0_iff)
  then show ?thesis by blast
qed

lemma sorted_all_team_games:
  "sorts_by_date srt \<Longrightarrow> sorted_wrt by_date (all_team_games srt fs t)"
  unfolding sorts_by_date_def all_team_games_def by blast

lemma set_all_team_games:
  assumes "sorts_by_date srt"
  shows "set (all_team_games srt fs t) =
     home_game ` {f \<in> set fs. eq_cell (home_team f) t} \<union>
     away_game ` {f \<in> set fs. eq_cell (away_team f) t}"
  by (auto simp: all_team_games_def sorts_by_date_set[OF assms])

text \<open>
  Where no two records of the input have the same date, the order is fixed by the dates:
  all sorts give the same sequence.
\<close>

lemma date_le_antisym: "date_le a b \<Longrightarrow> date_le b a \<Longrightarrow> a = b"
  by (cases a; cases b) auto

lemma sorted_by_date_unique:
  assumes "sorted_wrt by_date xs" and "sorted_wrt by_date ys"
      and "\<And>g. count_list xs g = count_list ys g"
      and "inj_on game_date (set ys)"
  shows "xs = ys"
  using assms
proof (induction xs arbitrary: ys)
  case Nil
  have "g \<notin> set ys" for g
    using Nil.prems(3)[of g] by (simp add: count_list_0_iff)
  then show ?case by (cases ys) auto
next
  case (Cons x xs)
  have sets: "g \<in> set (x # xs) \<longleftrightarrow> g \<in> set ys" for g
    using Cons.prems(3)[of g] by (metis count_list_0_iff)
  from sets[of x] obtain y ys' where ys: "ys = y # ys'" by (cases ys) auto
  have xy: "x = y"
  proof (rule ccontr)
    assume ne: "x \<noteq> y"
    with sets[of x] ys have "x \<in> set ys'" by auto
    with Cons.prems(2) ys have 1: "by_date y x" by auto
    from ne sets[of y] ys have "y \<in> set xs" by auto
    with Cons.prems(1) have 2: "by_date x y" by auto
    from 1 2 have "game_date x = game_date y"
      by (auto simp: by_date_def intro: date_le_antisym)
    moreover have "x \<in> set ys" "y \<in> set ys" using sets[of x] ys by auto
    ultimately have "x = y" using Cons.prems(4) by (auto dest: inj_onD)
    with ne show False by simp
  qed
  have "xs = ys'"
  proof (rule Cons.IH)
    show "sorted_wrt by_date xs" using Cons.prems(1) by simp
    show "sorted_wrt by_date ys'" using Cons.prems(2) ys by simp
    show "count_list xs g = count_list ys' g" for g
      using Cons.prems(3)[of g] ys xy by (simp split: if_splits)
    show "inj_on game_date (set ys')"
      using Cons.prems(4) ys by (auto simp: inj_on_def)
  qed
  with xy ys show ?case by simp
qed

lemma sorts_by_date_unique:
  assumes "sorts_by_date srt" and "sorts_by_date srt'" and "inj_on game_date (set gs)"
  shows "srt gs = srt' gs"
proof (rule sorted_by_date_unique)
  show "sorted_wrt by_date (srt gs)" using assms(1) unfolding sorts_by_date_def by blast
  show "sorted_wrt by_date (srt' gs)" using assms(2) unfolding sorts_by_date_def by blast
  show "count_list (srt gs) g = count_list (srt' gs) g" for g
    using assms(1,2) unfolding sorts_by_date_def by simp
  show "inj_on game_date (set (srt' gs))"
    using assms(3) by (simp add: sorts_by_date_set[OF assms(2)])
qed

lemma eq_cell_eq: "eq_cell a t \<Longrightarrow> a = t"
  by (simp add: eq_cell_def)

lemma game_dates_distinct:
  assumes "distinct (map date fs)" and "\<forall>f \<in> set fs. home_team f \<noteq> away_team f"
  shows "inj_on game_date
           (set (map home_game (filter (\<lambda>f. eq_cell (home_team f) t) fs) @
                 map away_game (filter (\<lambda>f. eq_cell (away_team f) t) fs)))"
proof (rule inj_onI)
  fix a b
  assume a: "a \<in> set (map home_game (filter (\<lambda>f. eq_cell (home_team f) t) fs) @
                       map away_game (filter (\<lambda>f. eq_cell (away_team f) t) fs))"
     and b: "b \<in> set (map home_game (filter (\<lambda>f. eq_cell (home_team f) t) fs) @
                       map away_game (filter (\<lambda>f. eq_cell (away_team f) t) fs))"
     and eq: "game_date a = game_date b"
  from assms(1) have inj: "inj_on date (set fs)" by (simp add: distinct_map)
  from a obtain f where f: "f \<in> set fs" "game_date a = date f"
    "a = home_game f \<and> home_team f = t \<or> a = away_game f \<and> away_team f = t"
    by (auto simp: home_game_def away_game_def dest: eq_cell_eq)
  from b obtain f' where f': "f' \<in> set fs" "game_date b = date f'"
    "b = home_game f' \<and> home_team f' = t \<or> b = away_game f' \<and> away_team f' = t"
    by (auto simp: home_game_def away_game_def dest: eq_cell_eq)
  from inj f(1,2) f'(1,2) eq have same: "f = f'" by (auto dest: inj_onD)
  from assms(2) f(1) have "home_team f \<noteq> away_team f" by blast
  with f(3) f'(3) same show "a = b" by auto
qed

lemma all_team_games_any_sort:
  assumes "sorts_by_date srt" and "sorts_by_date srt'"
      and "distinct (map date fs)" and "\<forall>f \<in> set fs. home_team f \<noteq> away_team f"
  shows "all_team_games srt fs t = all_team_games srt' fs t"
  unfolding all_team_games_def
  by (rule sorts_by_date_unique[OF assms(1,2) game_dates_distinct[OF assms(3,4)]])


lemma length_shift: "length (shift xs) = length xs"
  by (cases xs) (auto simp: shift_def)

lemma shift_nth_0: "xs \<noteq> [] \<Longrightarrow> shift xs ! 0 = None"
  by (cases xs) (auto simp: shift_def)


lemma last_5_first: "gs \<noteq> [] \<Longrightarrow> last_5 stat gs ! 0 = None"
  by (simp add: last_5_def shift_nth_0 rolling_mean_def)




lemma length_rolling_features: "length (rolling_features gs) = length gs"
  by (simp add: rolling_features_def)

lemma rolling_features_nth:
  "i < length gs \<Longrightarrow> rolling_features gs ! i =
     \<lparr>form_last_5 = last_5 game_result gs ! i,
      avg_goals_last_5 = last_5 team_goals gs ! i,
      avg_goals_conceded_last_5 = last_5 team_goals_conceded gs ! i,
      avg_xg_last_5 = last_5 team_xg gs ! i,
      avg_xg_conceded_last_5 = last_5 team_xg_conceded gs ! i,
      avg_poss_last_5 = last_5 team_poss gs ! i,
      avg_shots_last_5 = last_5 team_shots gs ! i,
      avg_shots_on_target_last_5 = last_5 team_shots_on_target gs ! i\<rparr>"
  by (simp add: rolling_features_def)


text \<open>When every value in the window is present, \<open>mean_over\<close> is the plain arithmetic mean.\<close>

lemma mean_over_all_present:
  assumes "lo \<le> hi" and "\<And>j. lo \<le> j \<Longrightarrow> j \<le> hi \<Longrightarrow> stat (gs ! j) \<noteq> None"
  shows "mean_over stat gs lo hi =
           Some ((\<Sum>j = lo..hi. the (stat (gs ! j))) / of_nat (hi - lo + 1))"
proof -
  have all: "filter (\<lambda>x. x \<noteq> None) (map (\<lambda>j. stat (gs ! j)) [lo..<Suc hi])
             = map (\<lambda>j. stat (gs ! j)) [lo..<Suc hi]"
    using assms(2) by (intro filter_True) auto
  have p: "present (map (\<lambda>j. stat (gs ! j)) [lo..<Suc hi]) = map (\<lambda>j. the (stat (gs ! j))) [lo..<Suc hi]"
    unfolding present_def all by simp
  have s: "sum_list (map (\<lambda>j. the (stat (gs ! j))) [lo..<Suc hi]) = (\<Sum>j = lo..hi. the (stat (gs ! j)))"
    by (simp add: interv_sum_list_conv_sum_set_nat atLeastLessThanSuc_atLeastAtMost del: upt_Suc)
  from assms(1) have ne: "[lo..<Suc hi] \<noteq> []" by simp
  have len: "length [lo..<Suc hi] = hi - lo + 1" using assms(1) by simp
  show ?thesis
    unfolding mean_over_def p Let_def using ne s len by (simp del: upt_Suc)
qed

text \<open>
  Claim C2. In the date-ordered sequence of a team's matches, the record at index 0 is an
  earliest one, and all eight of its rolling statistics are missing. This holds in
  whatever order the sort leaves records of the same date.
\<close>

theorem first_match_has_no_rolling_stats:
  assumes sort: "sorts_by_date srt" and ne: "all_team_games srt fs t \<noteq> []"
  shows "rolling_features (all_team_games srt fs t) ! 0 =
           \<lparr>form_last_5 = None, avg_goals_last_5 = None, avg_goals_conceded_last_5 = None,
            avg_xg_last_5 = None, avg_xg_conceded_last_5 = None, avg_poss_last_5 = None,
            avg_shots_last_5 = None, avg_shots_on_target_last_5 = None\<rparr> \<and>
         (\<forall>g \<in> set (all_team_games srt fs t). by_date (all_team_games srt fs t ! 0) g)"
proof -
  let ?gs = "all_team_games srt fs t"
  obtain g gs where gs: "?gs = g # gs" using ne by (cases ?gs) auto
  have "sorted_wrt by_date ?gs" by (rule sorted_all_team_games[OF sort])
  then have first: "\<forall>h \<in> set ?gs. by_date (?gs ! 0) h"
    unfolding gs using date_le_total by (auto simp: by_date_def)
  from ne have "0 < length ?gs" by simp
  then show ?thesis
    using first ne by (simp add: rolling_features_nth last_5_first)
qed


lemma all_team_games_ex: "all_team_games stable_by_date fixtures_ex (Str ''A'') = games_ex"
  by code_simp


lemma length_games_ex: "length games_ex = 6"
  by (simp add: games_ex_def)

text \<open>Team A of the example season, at its first and at its sixth match.\<close>

theorem first_match_has_no_rolling_stats_witness:
  "sorts_by_date stable_by_date \<and>
   all_team_games stable_by_date fixtures_ex (Str ''A'') \<noteq> [] \<and>
   form_last_5 (rolling_features (all_team_games stable_by_date fixtures_ex (Str ''A'')) ! 0) = None \<and>
   avg_goals_last_5 (rolling_features (all_team_games stable_by_date fixtures_ex (Str ''A'')) ! 0) = None"
proof -
  have ne: "all_team_games stable_by_date fixtures_ex (Str ''A'') \<noteq> []"
    using length_games_ex by (auto simp: all_team_games_ex)
  have "rolling_features (all_team_games stable_by_date fixtures_ex (Str ''A'')) ! 0 =
           \<lparr>form_last_5 = None, avg_goals_last_5 = None, avg_goals_conceded_last_5 = None,
            avg_xg_last_5 = None, avg_xg_conceded_last_5 = None, avg_poss_last_5 = None,
            avg_shots_last_5 = None, avg_shots_on_target_last_5 = None\<rparr>"
    using first_match_has_no_rolling_stats[OF sorts_by_date_stable ne] by (rule conjunct1)
  then show ?thesis
    using ne sorts_by_date_stable by (simp only: rolling_stats.simps simp_thms)
qed


subsection \<open>The joiner\<close>

lemma map_fst_stat_values: "map fst (stat_values s) = rolling_labels"
  by (simp add: stat_values_def rolling_labels_def)

lemma cols_named_fold_set_cell:
  assumes "c' \<notin> set (map (\<lambda>p. side @ fst p) ws)"
  shows "cols_named (fold (\<lambda>(c, v). set_cell i (side @ c) (cell_of v)) ws df) c' = cols_named df c'"
  using assms
proof (induction ws arbitrary: df)
  case Nil
  then show ?case by simp
next
  case (Cons w ws)
  obtain c v where w: "w = (c, v)" by (cases w)
  from Cons.prems w have ne: "c' \<noteq> side @ c" and rest: "c' \<notin> set (map (\<lambda>p. side @ fst p) ws)"
    by auto
  show ?case
    by (simp add: w Cons.IH[OF rest] cols_named_set_cell_other[OF ne])
qed

lemma cols_named_write_stats:
  assumes "c' \<notin> set (map (\<lambda>c. side @ c) rolling_labels)"
  shows "cols_named (write_stats side i s df) c' = cols_named df c'"
proof -
  have "map (\<lambda>p. side @ fst p) (stat_values s) = map (\<lambda>c. side @ c) rolling_labels"
    using map_fst_stat_values[of s] by (metis (no_types, lifting) map_map comp_apply map_eq_conv)
  with assms show ?thesis
    unfolding write_stats_def by (intro cols_named_fold_set_cell) simp
qed

lemma cols_named_map_back:
  assumes "c' \<notin> set (map (\<lambda>c. side @ c) rolling_labels)"
  shows "cols_named (map_back side games f df) c' = cols_named df c'"
  using assms by (simp add: map_back_def cols_named_write_stats split: option.splits)

lemma cols_named_fold_map_back:
  assumes "c' \<notin> set (map (\<lambda>c. side @ c) rolling_labels)"
  shows "cols_named (fold (map_back side games) fs df) c' = cols_named df c'"
  by (induction fs arbitrary: df) (simp_all add: cols_named_map_back[OF assms])

lemma cols_named_team_pass:
  assumes "c' \<notin> set feature_labels"
  shows "cols_named (team_pass srt fs t df) c' = cols_named df c'"
proof -
  from assms have "c' \<notin> set (map (\<lambda>c. ''home_'' @ c) rolling_labels)"
    and "c' \<notin> set (map (\<lambda>c. ''away_'' @ c) rolling_labels)"
    by (simp_all add: feature_labels_def)
  then show ?thesis
    by (simp add: team_pass_def Let_def cols_named_fold_map_back)
qed

lemma cols_named_fold_team_pass:
  assumes "c' \<notin> set feature_labels"
  shows "cols_named (fold (team_pass srt fs) ts df) c' = cols_named df c'"
  by (induction ts arbitrary: df) (simp_all add: cols_named_team_pass[OF assms])

lemma create_rolling_features_other:
  assumes "create_rolling_features srt df = Inr d" and "c \<notin> set feature_labels"
  shows "cols_named d c = cols_named df c"
  using assms
  by (auto simp: create_rolling_features_def bind_res_Inr cols_named_fold_team_pass
           split: if_splits)

text \<open>
  The loop reads the table it is writing to (\<open>df_prep\<close>). What it reads there is what the
  input table holds: a pass changes no column under a label that the loop reads.
\<close>

lemma fixtures_of_cong:
  assumes "\<And>c. c \<in> set read_columns \<Longrightarrow> cols_named d c = cols_named df c"
  shows "fixtures_of d = fixtures_of df"
proof -
  have g: "getcol d c = getcol df c" if "c \<in> set read_columns" for c
    using assms[OF that] by (simp add: getcol_def)
  have t: "the_col d c = the_col df c" if "c \<in> set read_columns" for c
    using assms[OF that] by (simp add: the_col_def)
  have e: "first_error d cs = first_error df cs" if "set cs \<subseteq> set read_columns" for cs
    using that by (induction cs) (auto simp: g split: sum.splits)
  have w: "well_typed d = well_typed df"
    unfolding well_typed_def using t by (auto simp: read_columns_def)
  have c: "cell_at d c i = cell_at df c i" if "c \<in> set read_columns" for c i
    using t[OF that] by (simp add: cell_at_def)
  have f: "fixture_at d i = fixture_at df i" for i
    unfolding fixture_at_def by (simp add: c read_columns_def stat_columns_def)
  have th: "the_col d ''home_team'' = the_col df ''home_team''"
    by (rule t) (simp add: read_columns_def)
  show ?thesis
    unfolding fixtures_of_def
    by (simp add: e[OF subset_refl] w f th split: option.splits)
qed

lemma read_not_written: "c \<in> set read_columns \<Longrightarrow> c \<notin> set feature_labels"
  by (auto simp: read_columns_def stat_columns_def feature_labels_def rolling_labels_def)

lemma fixtures_of_team_pass: "fixtures_of (team_pass srt fs t df) = fixtures_of df"
  by (rule fixtures_of_cong) (simp add: cols_named_team_pass read_not_written)

lemma cell_at_fold_write:
  assumes "rectangular df"
      and "\<forall>w \<in> set ws. fst w < nrows df"
      and "\<forall>w \<in> set ws. fst w = j \<and> fst (snd w) = c \<longrightarrow> snd (snd w) = v"
  shows "cell_at (fold write_cell ws df) c j =
           (if \<exists>w \<in> set ws. fst w = j \<and> fst (snd w) = c then v else cell_at df c j)"
  using assms
proof (induction ws arbitrary: df)
  case Nil
  then show ?case by simp
next
  case (Cons w ws)
  obtain i c' v' where w: "w = (i, c', v')" by (cases w)
  let ?df = "set_cell i c' v' df"
  from Cons.prems w have i: "i < nrows df" by simp
  have r: "rectangular ?df" using Cons.prems(1) by (rule rectangular_set_cell)
  have n: "\<forall>w \<in> set ws. fst w < nrows ?df"
    using Cons.prems(2) by (simp add: nrows_set_cell)
  have v: "\<forall>w \<in> set ws. fst w = j \<and> fst (snd w) = c \<longrightarrow> snd (snd w) = v"
    using Cons.prems(3) by simp
  have hd: "i = j \<and> c' = c \<longrightarrow> v' = v"
    using Cons.prems(3) w by simp
  have "cell_at (fold write_cell (w # ws) df) c j = cell_at (fold write_cell ws ?df) c j"
    by (simp add: w write_cell_def)
  also have "\<dots> = (if \<exists>w \<in> set ws. fst w = j \<and> fst (snd w) = c then v else cell_at ?df c j)"
    by (rule Cons.IH[OF r n v])
  also have "cell_at ?df c j = (if c = c' \<and> j = i then v' else cell_at df c j)"
    by (rule cell_at_set_cell[OF Cons.prems(1) i])
  finally show ?case using hd w by auto
qed

lemma write_cell_triple: "write_cell (i, c, v) = set_cell i c v"
  by (rule ext) (simp add: write_cell_def)

lemma write_stats_fold: "write_stats side i s df = fold write_cell (stat_writes side i s) df"
  by (simp add: write_stats_def stat_writes_def fold_map comp_def write_cell_triple case_prod_unfold)

lemma map_back_fold: "map_back side games f df = fold write_cell (back_writes side games f) df"
  by (simp add: map_back_def back_writes_def write_stats_fold split: option.splits)

lemma fold_fold_concat:
  assumes "\<And>x s. f x s = fold g (h x) s"
  shows "fold f xs s = fold g (concat (map h xs)) s"
  by (induction xs arbitrary: s) (simp_all add: assms)

lemma team_pass_fold: "team_pass srt fs t df = fold write_cell (pass_writes srt fs t) df"
  by (simp add: team_pass_def pass_writes_def Let_def
        fold_fold_concat[of "map_back side games" write_cell "back_writes side games" for side games,
          OF map_back_fold])

lemma fold_team_pass:
  "fold (team_pass srt fs) ts df = fold write_cell (concat (map (pass_writes srt fs) ts)) df"
  by (rule fold_fold_concat) (rule team_pass_fold)

lemma stat_writes_iff:
  "w \<in> set (stat_writes side i s) \<longleftrightarrow>
     (\<exists>n x. (n, x) \<in> set (stat_values s) \<and> w = (i, side @ n, cell_of x))"
  by (auto simp: stat_writes_def)

lemma back_writes_iff:
  "w \<in> set (back_writes side games f) \<longleftrightarrow>
     (\<exists>s n x. first_record games (date f) = Some s \<and> (n, x) \<in> set (stat_values s) \<and>
              w = (idx f, side @ n, cell_of x))"
  by (cases "first_record games (date f)") (auto simp: back_writes_def stat_writes_iff)

lemma pass_writes_iff:
  "w \<in> set (pass_writes srt fs t) \<longleftrightarrow>
     (\<exists>f s n x. f \<in> set fs \<and> first_record (team_history srt fs t) (date f) = Some s \<and>
        (n, x) \<in> set (stat_values s) \<and>
        (eq_cell (home_team f) t \<and> w = (idx f, ''home_'' @ n, cell_of x) \<or>
         eq_cell (away_team f) t \<and> w = (idx f, ''away_'' @ n, cell_of x)))"
  unfolding pass_writes_def set_append set_concat set_map Un_iff UN_iff bex_simps image_iff set_filter
    back_writes_iff mem_Collect_eq
  by blast

lemma stat_values_functional:
  "(n, x) \<in> set (stat_values s) \<Longrightarrow> (n, y) \<in> set (stat_values s) \<Longrightarrow> x = y"
  by (auto simp: stat_values_def)

lemma eq_cell_iff: "eq_cell a t \<longleftrightarrow> a = t \<and> t \<noteq> NaN"
  by (auto simp: eq_cell_def)

lemma all_writes_iff:
  "w \<in> set (concat (map (pass_writes srt fs) ts)) \<longleftrightarrow> (\<exists>t \<in> set ts. w \<in> set (pass_writes srt fs t))"
  by auto

lemma pass_writes_rows: "w \<in> set (pass_writes srt fs t) \<Longrightarrow> \<exists>g \<in> set fs. fst w = idx g"
  unfolding pass_writes_iff by auto

lemma all_writes_bound:
  assumes "\<forall>g \<in> set fs. idx g < nrows df"
  shows "\<forall>w \<in> set (concat (map (pass_writes srt fs) ts)). fst w < nrows df"
proof
  fix w assume "w \<in> set (concat (map (pass_writes srt fs) ts))"
  then obtain t where "w \<in> set (pass_writes srt fs t)" unfolding all_writes_iff by blast
  then obtain g where "g \<in> set fs" "fst w = idx g" using pass_writes_rows by blast
  with assms show "fst w < nrows df" by simp
qed

lemma joined_cell:
  assumes rect: "rectangular df"
      and rows: "\<forall>g \<in> set fs. idx g < nrows df"
      and inj: "\<forall>g \<in> set fs. idx g = idx f \<longrightarrow> g = f"
      and f: "f \<in> set fs"
      and t: "t \<in> set ts" "t \<noteq> NaN"
      and side: "side = ''home_'' \<and> home_team f = t \<or> side = ''away_'' \<and> away_team f = t"
      and s: "first_record (team_history srt fs t) (date f) = Some s"
      and nx: "(n, x) \<in> set (stat_values s)"
  shows "cell_at (fold write_cell (concat (map (pass_writes srt fs) ts)) df) (side @ n) (idx f) = cell_of x"
proof -
  let ?ws = "concat (map (pass_writes srt fs) ts)"
  have bound: "\<forall>w \<in> set ?ws. fst w < nrows df"
    using rows by (rule all_writes_bound)
  have same: "\<forall>w \<in> set ?ws. fst w = idx f \<and> fst (snd w) = side @ n \<longrightarrow> snd (snd w) = cell_of x"
  proof (intro ballI impI)
    fix w assume w: "w \<in> set ?ws" and tgt: "fst w = idx f \<and> fst (snd w) = side @ n"
    from w obtain t' g s' n' x' where
      t': "t' \<in> set ts" and g: "g \<in> set fs" and
      s': "first_record (team_history srt fs t') (date g) = Some s'" and
      nx': "(n', x') \<in> set (stat_values s')" and
      kind: "eq_cell (home_team g) t' \<and> w = (idx g, ''home_'' @ n', cell_of x') \<or>
             eq_cell (away_team g) t' \<and> w = (idx g, ''away_'' @ n', cell_of x')"
      unfolding all_writes_iff pass_writes_iff by blast
    from kind tgt have "idx g = idx f" by auto
    with inj g have gf: "g = f" by blast
    from kind tgt side have same_side:
      "(side = ''home_'' \<and> eq_cell (home_team g) t' \<or> side = ''away_'' \<and> eq_cell (away_team g) t')
       \<and> n' = n \<and> snd (snd w) = cell_of x'"
      by auto
    with side gf have "t' = t" by (auto simp: eq_cell_iff)
    with s s' gf have "s' = s" by simp
    with nx nx' same_side have "x' = x" by (auto dest: stat_values_functional)
    with same_side show "snd (snd w) = cell_of x" by simp
  qed
  have "(idx f, side @ n, cell_of x) \<in> set (pass_writes srt fs t)"
    unfolding pass_writes_iff
    using f s nx side t(2)
    by (intro exI[of _ f] exI[of _ s] exI[of _ n] exI[of _ x]) (auto simp: eq_cell_iff)
  with t(1) have ex: "\<exists>w \<in> set ?ws. fst w = idx f \<and> fst (snd w) = side @ n"
    unfolding all_writes_iff by force
  from cell_at_fold_write[OF rect bound same] ex show ?thesis by simp
qed

lemma unjoined_cell:
  assumes rect: "rectangular df"
      and rows: "\<forall>g \<in> set fs. idx g < nrows df"
      and inj: "\<forall>g \<in> set fs. idx g = idx f \<longrightarrow> g = f"
      and side: "side = ''home_'' \<and> home_team f = t \<or> side = ''away_'' \<and> away_team f = t"
      and s: "first_record (team_history srt fs t) (date f) = None"
  shows "cell_at (fold write_cell (concat (map (pass_writes srt fs) ts)) df) (side @ n) (idx f)
         = cell_at df (side @ n) (idx f)"
proof -
  let ?ws = "concat (map (pass_writes srt fs) ts)"
  have bound: "\<forall>w \<in> set ?ws. fst w < nrows df"
    using rows by (rule all_writes_bound)
  have none: "\<not> (fst w = idx f \<and> fst (snd w) = side @ n)" if w: "w \<in> set ?ws" for w
  proof
    assume tgt: "fst w = idx f \<and> fst (snd w) = side @ n"
    from w obtain t' g s' n' x' where
      g: "g \<in> set fs" and
      s': "first_record (team_history srt fs t') (date g) = Some s'" and
      kind: "eq_cell (home_team g) t' \<and> w = (idx g, ''home_'' @ n', cell_of x') \<or>
             eq_cell (away_team g) t' \<and> w = (idx g, ''away_'' @ n', cell_of x')"
      unfolding all_writes_iff pass_writes_iff by blast
    from kind tgt have "idx g = idx f" by auto
    with inj g have gf: "g = f" by blast
    from kind tgt side have
      "side = ''home_'' \<and> eq_cell (home_team g) t' \<or> side = ''away_'' \<and> eq_cell (away_team g) t'"
      by auto
    with side gf have "t' = t" by (auto simp: eq_cell_iff)
    with s s' gf show False by simp
  qed
  then have same: "\<forall>w \<in> set ?ws. fst w = idx f \<and> fst (snd w) = side @ n \<longrightarrow> snd (snd w) = NaN"
    by blast
  from cell_at_fold_write[OF rect bound same] none show ?thesis by auto
qed

lemma team_history_has:
  assumes "g \<in> set (all_team_games srt fs t)"
  shows "\<exists>s. (g, s) \<in> set (team_history srt fs t)"
proof -
  from assms obtain k where k: "k < length (all_team_games srt fs t)" "all_team_games srt fs t ! k = g"
    by (auto simp: in_set_conv_nth)
  then have "(g, rolling_features (all_team_games srt fs t) ! k) \<in> set (team_history srt fs t)"
    unfolding team_history_def Let_def in_set_zip
    by (intro exI[of _ k]) (simp add: length_rolling_features)
  then show ?thesis by blast
qed

lemma first_record_None_iff:
  assumes "g \<in> set (all_team_games srt fs t)" and "game_date g = d"
  shows "first_record (team_history srt fs t) d = None \<longleftrightarrow> d = None"
proof
  assume "d = None"
  then have "team_stats (team_history srt fs t) d = []"
    by (auto simp: team_stats_def eq_date_def filter_empty_conv)
  then show "first_record (team_history srt fs t) d = None"
    by (simp add: first_record_def)
next
  assume none: "first_record (team_history srt fs t) d = None"
  show "d = None"
  proof (rule ccontr)
    assume "d \<noteq> None"
    moreover from team_history_has[OF assms(1)] obtain s where "(g, s) \<in> set (team_history srt fs t)"
      by blast
    ultimately have "(g, s) \<in> set (team_stats (team_history srt fs t) d)"
      using assms(2) by (simp add: team_stats_def eq_date_def)
    then have "team_stats (team_history srt fs t) d \<noteq> []" by auto
    with none show False
      by (auto simp: first_record_def split: list.splits)
  qed
qed

lemma home_record_found:
  assumes "f \<in> set fs" and "home_team f \<noteq> NaN" and sort: "sorts_by_date srt"
  shows "first_record (team_history srt fs (home_team f)) (date f) = None \<longleftrightarrow> date f = None"
proof -
  have "home_game f \<in> set (all_team_games srt fs (home_team f))"
    using assms(1,2) by (auto simp: set_all_team_games[OF sort] eq_cell_def)
  moreover have "game_date (home_game f) = date f" by (simp add: home_game_def)
  ultimately show ?thesis by (rule first_record_None_iff)
qed

lemma away_record_found:
  assumes "f \<in> set fs" and "away_team f \<noteq> NaN" and sort: "sorts_by_date srt"
  shows "first_record (team_history srt fs (away_team f)) (date f) = None \<longleftrightarrow> date f = None"
proof -
  have "away_game f \<in> set (all_team_games srt fs (away_team f))"
    using assms(1,2) by (auto simp: set_all_team_games[OF sort] eq_cell_def)
  moreover have "game_date (away_game f) = date f" by (simp add: away_game_def)
  ultimately show ?thesis by (rule first_record_None_iff)
qed

lemma first_error_None:
  "first_error df cs = None \<Longrightarrow> c \<in> set cs \<Longrightarrow> \<exists>xs. getcol df c = Inr xs"
  by (induction cs) (auto split: sum.splits)

lemma fixtures_of_Inr:
  assumes "fixtures_of df = Inr fs"
  shows "fs = map (fixture_at df) [0..<length (the_col df ''home_team'')]"
    and "getcol df ''home_team'' = Inr (the_col df ''home_team'')"
proof -
  from assms have ok: "first_error df read_columns = None"
    by (auto simp: fixtures_of_def split: option.splits)
  from assms show "fs = map (fixture_at df) [0..<length (the_col df ''home_team'')]"
    by (auto simp: fixtures_of_def split: option.splits if_splits)
  from first_error_None[OF ok, of "''home_team''"]
  obtain xs where "getcol df ''home_team'' = Inr xs"
    by (auto simp: read_columns_def)
  then show "getcol df ''home_team'' = Inr (the_col df ''home_team'')"
    by (simp add: getcol_the_col)
qed

lemma idx_fixture_at: "idx (fixture_at df i) = i"
  by (simp add: fixture_at_def)

lemma home_team_fixture_at: "home_team (fixture_at df i) = cell_at df ''home_team'' i"
  by (simp add: fixture_at_def)

lemma set_unique: "set (unique xs) = set xs"
  by (simp add: unique_def)

lemma create_rolling_features_run:
  assumes "fixtures_of df = Inr fs"
  shows "create_rolling_features srt df =
           Inr (fold write_cell
                  (concat (map (pass_writes srt fs) (unique (the_col df ''home_team'')))) df)"
proof -
  note h = fixtures_of_Inr(2)[OF assms]
  show ?thesis
  proof (cases "the_col df ''home_team'' = []")
    case True
    then show ?thesis
      by (simp add: create_rolling_features_def h unique_def)
  next
    case False
    then show ?thesis
      by (simp add: create_rolling_features_def h assms fold_team_pass)
  qed
qed

lemma team_history_any_sort:
  assumes "sorts_by_date srt" and "sorts_by_date srt'"
      and "distinct (map date fs)" and "\<forall>f \<in> set fs. home_team f \<noteq> away_team f"
  shows "team_history srt fs t = team_history srt' fs t"
  unfolding team_history_def by (simp only: all_team_games_any_sort[OF assms])

lemma create_rolling_features_any_sort:
  assumes "sorts_by_date srt" and "sorts_by_date srt'" and "fixtures_of df = Inr fs"
      and "distinct (map date fs)" and "\<forall>f \<in> set fs. home_team f \<noteq> away_team f"
  shows "create_rolling_features srt df = create_rolling_features srt' df"
proof -
  have "pass_writes srt fs = pass_writes srt' fs"
    by (rule ext) (simp only: pass_writes_def team_history_any_sort[OF assms(1,2,4,5)])
  then show ?thesis
    by (simp only: create_rolling_features_run[OF assms(3)])
qed

text \<open>
  Claim C3, as amended. On a well-formed table with the fixture columns the joiner never
  fails, whatever the order in which the sort leaves records of the same date. For a
  fixture and its home team, the records of the team's history with the fixture's date
  are looked up; when there is one or more, the eight values of the first of them, in
  the order of the sorted history, are the fixture's \<open>home_\<close> features, whatever the
  other matching records hold; when there is none, which happens only when the fixture's
  date is missing, the fixture's \<open>home_\<close> cells are what they were in the input (missing,
  when the input had no such column). The same holds for the away team and the \<open>away_\<close>
  features, but only for an away team that is the home team of at least one fixture of
  the table: the loop visits no other team.
\<close>

theorem joiner_uses_first_record:
  assumes "fixtures_of df = Inr fs" and "rectangular df" and "sorts_by_date srt"
  shows "\<exists>d. create_rolling_features srt df = Inr d \<and>
     (\<forall>f \<in> set fs. \<forall>n.
        (home_team f \<noteq> NaN \<longrightarrow>
           (\<forall>s x. first_record (team_history srt fs (home_team f)) (date f) = Some s \<and>
                  (n, x) \<in> set (stat_values s) \<longrightarrow>
                  cell_at d (''home_'' @ n) (idx f) = cell_of x) \<and>
           (first_record (team_history srt fs (home_team f)) (date f) = None \<longrightarrow>
              cell_at d (''home_'' @ n) (idx f) = cell_at df (''home_'' @ n) (idx f)) \<and>
           (first_record (team_history srt fs (home_team f)) (date f) = None \<longleftrightarrow> date f = None)) \<and>
        (away_team f \<noteq> NaN \<and> away_team f \<in> set (the_col df ''home_team'') \<longrightarrow>
           (\<forall>s x. first_record (team_history srt fs (away_team f)) (date f) = Some s \<and>
                  (n, x) \<in> set (stat_values s) \<longrightarrow>
                  cell_at d (''away_'' @ n) (idx f) = cell_of x) \<and>
           (first_record (team_history srt fs (away_team f)) (date f) = None \<longrightarrow>
              cell_at d (''away_'' @ n) (idx f) = cell_at df (''away_'' @ n) (idx f)) \<and>
           (first_record (team_history srt fs (away_team f)) (date f) = None \<longleftrightarrow> date f = None)))"
proof -
  let ?teams = "the_col df ''home_team''"
  let ?ts = "unique ?teams"
  let ?d = "fold write_cell (concat (map (pass_writes srt fs) ?ts)) df"
  note fs = fixtures_of_Inr(1)[OF assms(1)]
  note h = fixtures_of_Inr(2)[OF assms(1)]
  have run: "create_rolling_features srt df = Inr ?d"
    using assms(1) by (rule create_rolling_features_run)
  have "''home_team'' \<in> set (columns df)" using h by (rule getcol_Inr_present)
  with assms(2) have n: "length ?teams = nrows df" by (rule rectangular_the_col)
  have rows: "\<forall>g \<in> set fs. idx g < nrows df"
    unfolding fs using n by (auto simp: idx_fixture_at)
  have inj: "\<forall>g \<in> set fs. idx g = idx f \<longrightarrow> g = f" if "f \<in> set fs" for f
    using that unfolding fs by (auto simp: idx_fixture_at)
  have home: "home_team f \<in> set ?ts" if "f \<in> set fs" for f
    using that unfolding fs set_unique
    by (auto simp: home_team_fixture_at cell_at_def)
  have joined: "cell_at ?d (side @ n) (idx f) = cell_of x"
    if "f \<in> set fs" "t \<in> set ?ts" "t \<noteq> NaN"
       "side = ''home_'' \<and> home_team f = t \<or> side = ''away_'' \<and> away_team f = t"
       "first_record (team_history srt fs t) (date f) = Some s" "(n, x) \<in> set (stat_values s)"
    for f t side s n x
    using joined_cell[OF assms(2) rows inj[OF that(1)] that] .
  have unjoined: "cell_at ?d (side @ n) (idx f) = cell_at df (side @ n) (idx f)"
    if "f \<in> set fs"
       "side = ''home_'' \<and> home_team f = t \<or> side = ''away_'' \<and> away_team f = t"
       "first_record (team_history srt fs t) (date f) = None"
    for f t side n
    using unjoined_cell[OF assms(2) rows inj[OF that(1)] that(2,3)] .
  show ?thesis
  proof (intro exI[of _ ?d] conjI ballI allI impI)
    show "create_rolling_features srt df = Inr ?d" by (rule run)
  next
    fix f n s x
    assume "f \<in> set fs" "home_team f \<noteq> NaN"
      "first_record (team_history srt fs (home_team f)) (date f) = Some s \<and> (n, x) \<in> set (stat_values s)"
    then show "cell_at ?d (''home_'' @ n) (idx f) = cell_of x"
      using joined[of f "home_team f" "''home_''" s n x] home[of f] by simp
  next
    fix f n
    assume "f \<in> set fs" "first_record (team_history srt fs (home_team f)) (date f) = None"
    then show "cell_at ?d (''home_'' @ n) (idx f) = cell_at df (''home_'' @ n) (idx f)"
      using unjoined[of f "''home_''" "home_team f" n] by simp
  next
    fix f
    assume "f \<in> set fs" "home_team f \<noteq> NaN"
    then show "first_record (team_history srt fs (home_team f)) (date f) = None \<longleftrightarrow> date f = None"
      using assms(3) by (rule home_record_found)
  next
    fix f n s x
    assume "f \<in> set fs" "away_team f \<noteq> NaN \<and> away_team f \<in> set ?teams"
      "first_record (team_history srt fs (away_team f)) (date f) = Some s \<and> (n, x) \<in> set (stat_values s)"
    then show "cell_at ?d (''away_'' @ n) (idx f) = cell_of x"
      using joined[of f "away_team f" "''away_''" s n x] by (simp add: set_unique)
  next
    fix f n
    assume "f \<in> set fs" "first_record (team_history srt fs (away_team f)) (date f) = None"
    then show "cell_at ?d (''away_'' @ n) (idx f) = cell_at df (''away_'' @ n) (idx f)"
      using unjoined[of f "''away_''" "away_team f" n] by simp
  next
    fix f
    assume "f \<in> set fs" "away_team f \<noteq> NaN \<and> away_team f \<in> set ?teams"
    then show "first_record (team_history srt fs (away_team f)) (date f) = None \<longleftrightarrow> date f = None"
      using assms(3) by (intro away_record_found) simp_all
  qed
qed

lemma fixtures_of_same_day: "fixtures_of same_day_ex = Inr same_day_fixtures"
  by code_simp

lemma rectangular_same_day: "rectangular same_day_ex"
  by code_simp

lemma same_day_home_teams: "Str ''A'' \<in> set (the_col same_day_ex ''home_team'')"
  by code_simp

lemma same_day_matches:
  "map (\<lambda>(g, s). form_last_5 s)
     (team_stats (team_history stable_by_date same_day_fixtures (Str ''A'')) (Some 2))
     = [Some 1, Some 0]"
  by code_simp

lemma same_day_matches_reversed:
  "map (\<lambda>(g, s). form_last_5 s)
     (team_stats (team_history ties_reversed same_day_fixtures (Str ''A'')) (Some 2))
     = [Some 1, Some (1 / 2)]"
  by code_simp

lemma same_day_first:
  "map_option form_last_5
     (first_record (team_history stable_by_date same_day_fixtures (Str ''A'')) (Some 2))
     = Some (Some 1)"
  by code_simp

lemma same_day_missing:
  "first_record (team_history stable_by_date same_day_fixtures (Str ''B'')) None = None"
  by code_simp

lemma same_day_run:
  "case create_rolling_features stable_by_date same_day_ex of
     Inl e \<Rightarrow> False
   | Inr d \<Rightarrow> the_col d ''home_form_last_5'' = [NaN, Num 1, Num (- 1), NaN] \<and>
             the_col d ''away_form_last_5'' = [NaN, NaN, Num 1, NaN]"
  by code_simp

lemma same_day_run_reversed:
  "case create_rolling_features ties_reversed same_day_ex of
     Inl e \<Rightarrow> False
   | Inr d \<Rightarrow> the_col d ''home_form_last_5'' = [NaN, Num 1, Num (- 1), NaN] \<and>
             the_col d ''away_form_last_5'' = [NaN, NaN, Num 1, NaN]"
  by code_simp

text \<open>
  In the example table, with the sort that keeps the input order of same-date records:
  A's home fixture of day 2 (row 1) and A's away fixture of day 2 (row 2) both get the
  form of the first of A's two records of that day; B's home fixture without a date (row
  3) matches no record and its cell stays missing.
\<close>

theorem joiner_uses_first_record_witness:
  "sorts_by_date stable_by_date \<and>
   fixtures_of same_day_ex = Inr same_day_fixtures \<and> rectangular same_day_ex \<and>
   Str ''A'' \<in> set (the_col same_day_ex ''home_team'') \<and>
   map (\<lambda>(g, s). form_last_5 s)
     (team_stats (team_history stable_by_date same_day_fixtures (Str ''A'')) (Some 2))
     = [Some 1, Some 0] \<and>
   first_record (team_history stable_by_date same_day_fixtures (Str ''B'')) None = None \<and>
   (\<exists>d. create_rolling_features stable_by_date same_day_ex = Inr d \<and>
        cell_at d ''home_form_last_5'' 1 = Num 1 \<and>
        cell_at d ''away_form_last_5'' 2 = Num 1 \<and>
        cell_at d ''home_form_last_5'' 3 = NaN)"
proof -
  let ?h = "fixture_at same_day_ex 1"
  let ?a = "fixture_at same_day_ex 2"
  let ?m = "fixture_at same_day_ex 3"
  have h: "?h \<in> set same_day_fixtures" and a: "?a \<in> set same_day_fixtures"
    and m: "?m \<in> set same_day_fixtures"
    by (simp_all add: same_day_fixtures_def)
  have th: "home_team ?h = Str ''A''" and dh: "date ?h = Some 2" and ih: "idx ?h = 1"
    by (simp_all add: fixture_at_def cell_at_def the_col_def cols_named_def same_day_ex_def)
  have ta: "away_team ?a = Str ''A''" and da: "date ?a = Some 2" and ia: "idx ?a = 2"
    by (simp_all add: fixture_at_def cell_at_def the_col_def cols_named_def same_day_ex_def)
  have tm: "home_team ?m = Str ''B''" and dm: "date ?m = None" and im: "idx ?m = 3"
    by (simp_all add: fixture_at_def cell_at_def the_col_def cols_named_def same_day_ex_def)
  have before: "cell_at same_day_ex ''home_form_last_5'' 3 = NaN"
    by (simp add: cell_at_def the_col_def cols_named_def same_day_ex_def)
  from same_day_first obtain s where
    s: "first_record (team_history stable_by_date same_day_fixtures (Str ''A'')) (Some 2) = Some s"
    and form: "form_last_5 s = Some 1"
    by auto
  have nx: "(''form_last_5'', Some 1) \<in> set (stat_values s)"
    using form by (simp add: stat_values_def)
  from joiner_uses_first_record[OF fixtures_of_same_day rectangular_same_day sorts_by_date_stable]
  obtain d where d: "create_rolling_features stable_by_date same_day_ex = Inr d"
    and home: "\<And>f n s x. f \<in> set same_day_fixtures \<Longrightarrow> home_team f \<noteq> NaN \<Longrightarrow>
        first_record (team_history stable_by_date same_day_fixtures (home_team f)) (date f) = Some s \<Longrightarrow>
        (n, x) \<in> set (stat_values s) \<Longrightarrow> cell_at d (''home_'' @ n) (idx f) = cell_of x"
    and away: "\<And>f n s x. f \<in> set same_day_fixtures \<Longrightarrow> away_team f \<noteq> NaN \<Longrightarrow>
        away_team f \<in> set (the_col same_day_ex ''home_team'') \<Longrightarrow>
        first_record (team_history stable_by_date same_day_fixtures (away_team f)) (date f) = Some s \<Longrightarrow>
        (n, x) \<in> set (stat_values s) \<Longrightarrow> cell_at d (''away_'' @ n) (idx f) = cell_of x"
    and none: "\<And>f n. f \<in> set same_day_fixtures \<Longrightarrow> home_team f \<noteq> NaN \<Longrightarrow>
        first_record (team_history stable_by_date same_day_fixtures (home_team f)) (date f) = None \<Longrightarrow>
        cell_at d (''home_'' @ n) (idx f) = cell_at same_day_ex (''home_'' @ n) (idx f)"
    by blast
  from home[OF h _ _ nx] s th dh ih have 1: "cell_at d ''home_form_last_5'' 1 = Num 1"
    by simp
  from away[OF a _ _ _ nx] s same_day_home_teams ta da ia
  have 2: "cell_at d ''away_form_last_5'' 2 = Num 1"
    by simp
  from none[OF m, of "''form_last_5''"] same_day_missing before tm dm im
  have 3: "cell_at d ''home_form_last_5'' 3 = NaN"
    by simp
  from d 1 2 3 have "\<exists>d. create_rolling_features stable_by_date same_day_ex = Inr d \<and>
        cell_at d ''home_form_last_5'' 1 = Num 1 \<and>
        cell_at d ''away_form_last_5'' 2 = Num 1 \<and>
        cell_at d ''home_form_last_5'' 3 = NaN"
    by blast
  with sorts_by_date_stable fixtures_of_same_day rectangular_same_day same_day_home_teams
    same_day_matches same_day_missing
  show ?thesis by (simp only: simp_thms)
qed

text \<open>
  The claim as it stood: on day 2 the lookup for A finds two records whose values differ,
  in either order of the two, and no error is raised: the run returns a table.
\<close>

theorem ambiguous_match_counterexample:
  "fixtures_of same_day_ex = Inr same_day_fixtures \<and>
   map (\<lambda>(g, s). form_last_5 s)
     (team_stats (team_history stable_by_date same_day_fixtures (Str ''A'')) (Some 2))
     = [Some 1, Some 0] \<and>
   map (\<lambda>(g, s). form_last_5 s)
     (team_stats (team_history ties_reversed same_day_fixtures (Str ''A'')) (Some 2))
     = [Some 1, Some (1 / 2)] \<and>
   (\<exists>d. create_rolling_features stable_by_date same_day_ex = Inr d \<and>
        the_col d ''home_form_last_5'' = [NaN, Num 1, Num (- 1), NaN] \<and>
        the_col d ''away_form_last_5'' = [NaN, NaN, Num 1, NaN]) \<and>
   (\<exists>d. create_rolling_features ties_reversed same_day_ex = Inr d \<and>
        the_col d ''home_form_last_5'' = [NaN, Num 1, Num (- 1), NaN] \<and>
        the_col d ''away_form_last_5'' = [NaN, NaN, Num 1, NaN])"
proof -
  have 1: "\<exists>d. create_rolling_features stable_by_date same_day_ex = Inr d \<and>
        the_col d ''home_form_last_5'' = [NaN, Num 1, Num (- 1), NaN] \<and>
        the_col d ''away_form_last_5'' = [NaN, NaN, Num 1, NaN]"
    using same_day_run by (auto split: sum.splits)
  have 2: "\<exists>d. create_rolling_features ties_reversed same_day_ex = Inr d \<and>
        the_col d ''home_form_last_5'' = [NaN, Num 1, Num (- 1), NaN] \<and>
        the_col d ''away_form_last_5'' = [NaN, NaN, Num 1, NaN]"
    using same_day_run_reversed by (auto split: sum.splits)
  from fixtures_of_same_day same_day_matches same_day_matches_reversed 1 2
  show ?thesis by (simp only: simp_thms)
qed

lemma fixtures_of_away_only: "fixtures_of away_only_ex = Inr away_only_fixtures"
  by code_simp

lemma away_only_dates:
  "distinct (map date away_only_fixtures) \<and>
   list_all (\<lambda>f. home_team f \<noteq> away_team f) away_only_fixtures"
  by code_simp

lemma away_only_teams:
  "Str ''B'' \<in> set (the_col away_only_ex ''away_team'') \<and>
   unique (the_col away_only_ex ''home_team'') = [Str ''A'', Str ''C'']"
  by code_simp

lemma away_only_history:
  "map (\<lambda>(g, s). (game_result g, form_last_5 s)) (team_history stable_by_date away_only_fixtures (Str ''B''))
     = [(Some (- 1), None), (Some 0, Some (- 1))]"
  by code_simp

lemma away_only_run:
  "case create_rolling_features stable_by_date away_only_ex of
     Inl e \<Rightarrow> False
   | Inr d \<Rightarrow> getcol d ''away_form_last_5'' = Inl (KeyError ''away_form_last_5'') \<and>
             getcol d ''home_form_last_5'' = Inr [NaN, NaN] \<and>
             cell_at d ''away_form_last_5'' 1 = NaN"
  by code_simp

text \<open>
  Claim C4. The loop of line 39 runs over the teams of the \<open>home_team\<close> column only. In
  a table where team B plays away twice and never at home, B's own history gives a form
  of -1 before its second match (it lost the first, the home side's win negated), but no
  pass of the loop is B's: the table comes back without any \<open>away_\<close> feature column, and
  the away form of B's second fixture is missing. The two fixtures are on different
  days, so this is so for every sort.
\<close>

theorem away_only_team_gets_no_features:
  assumes "sorts_by_date srt"
  shows "fixtures_of away_only_ex = Inr away_only_fixtures \<and>
   Str ''B'' \<in> set (the_col away_only_ex ''away_team'') \<and>
   unique (the_col away_only_ex ''home_team'') = [Str ''A'', Str ''C''] \<and>
   map (\<lambda>(g, s). (game_result g, form_last_5 s)) (team_history srt away_only_fixtures (Str ''B''))
     = [(Some (- 1), None), (Some 0, Some (- 1))] \<and>
   (\<exists>d. create_rolling_features srt away_only_ex = Inr d \<and>
        getcol d ''away_form_last_5'' = Inl (KeyError ''away_form_last_5'') \<and>
        getcol d ''home_form_last_5'' = Inr [NaN, NaN] \<and>
        cell_at d ''away_form_last_5'' 1 = NaN)"
proof -
  from away_only_dates have dates: "distinct (map date away_only_fixtures)"
    and teams: "\<forall>f \<in> set away_only_fixtures. home_team f \<noteq> away_team f"
    by (simp_all add: list_all_iff)
  have hist: "team_history srt away_only_fixtures (Str ''B'')
              = team_history stable_by_date away_only_fixtures (Str ''B'')"
    using assms sorts_by_date_stable dates teams by (rule team_history_any_sort)
  have run: "create_rolling_features srt away_only_ex
             = create_rolling_features stable_by_date away_only_ex"
    using assms sorts_by_date_stable fixtures_of_away_only dates teams
    by (rule create_rolling_features_any_sort)
  show ?thesis
    unfolding hist run
    using fixtures_of_away_only away_only_teams away_only_history away_only_run
    by (auto split: sum.splits)
qed

theorem away_only_team_gets_no_features_witness:
  "sorts_by_date stable_by_date \<and>
   map (\<lambda>(g, s). (game_result g, form_last_5 s))
     (team_history stable_by_date away_only_fixtures (Str ''B''))
     = [(Some (- 1), None), (Some 0, Some (- 1))] \<and>
   (\<exists>d. create_rolling_features stable_by_date away_only_ex = Inr d \<and>
        cell_at d ''away_form_last_5'' 1 = NaN)"
  using away_only_team_gets_no_features[OF sorts_by_date_stable] sorts_by_date_stable
  by blast

subsection \<open>The encoder\<close>

lemma dummies_labels:
  "(c, xs) \<in> set (dummies prefix col) \<Longrightarrow> \<exists>l. Str l \<in> set col \<and> c = prefix @ ''_'' @ l"
  by (auto simp: dummies_def levels_def split: cell.splits)

lemma cols_named_dummies_none:
  assumes "\<And>l. Str l \<in> set col \<Longrightarrow> prefix @ ''_'' @ l \<noteq> c"
  shows "cols_named (dummies prefix col) c = []"
proof -
  have "\<And>p. p \<in> set (dummies prefix col) \<Longrightarrow> fst p \<noteq> c"
    using assms dummies_labels by (metis prod.collapse)
  then show ?thesis by (simp add: cols_named_def filter_empty_conv)
qed

lemma getcol_append_dummies:
  assumes "\<And>l. Str l \<in> set hs \<Longrightarrow> ''home_'' @ l \<noteq> c"
      and "\<And>l. Str l \<in> set as \<Longrightarrow> ''away_'' @ l \<noteq> c"
  shows "getcol (df @ dummies ''home'' hs @ dummies ''away'' as) c = getcol df c"
  using cols_named_dummies_none[of hs "''home''" c] cols_named_dummies_none[of as "''away''" c] assms
  by (simp add: getcol_def cols_named_append)

text \<open>
  Claim C6, as amended. Encoding an encoded table again leaves every column of it where
  it was, the indicator columns among them, and appends the same indicator columns a
  second time under the same labels. (No team is named \<open>team\<close>, so that no indicator
  column is labelled like a team column.)
\<close>

theorem encode_teams_twice:
  assumes "encode_teams df = Inr d1"
      and "Str ''team'' \<notin> set (the_col df ''home_team'')"
      and "Str ''team'' \<notin> set (the_col df ''away_team'')"
  shows "\<exists>new. d1 = df @ new \<and>
               new = dummies ''home'' (the_col df ''home_team'') @ dummies ''away'' (the_col df ''away_team'') \<and>
               encode_teams d1 = Inr (d1 @ new)"
proof -
  from assms(1) obtain hs ws where
    hs: "getcol df ''home_team'' = Inr hs" and aws: "getcol df ''away_team'' = Inr ws" and
    tcol: "text_column hs" "text_column ws" and
    d1: "d1 = df @ dummies ''home'' hs @ dummies ''away'' ws"
    by (auto simp: encode_teams_def bind_res_Inr split: if_splits)
  have ths: "the_col df ''home_team'' = hs" "the_col df ''away_team'' = ws"
    using hs aws by (simp_all add: getcol_the_col)
  have h1: "getcol d1 ''home_team'' = Inr hs"
    unfolding d1 using assms(2) ths hs by (subst getcol_append_dummies) auto
  have a1: "getcol d1 ''away_team'' = Inr ws"
    unfolding d1 using assms(3) ths aws by (subst getcol_append_dummies) auto
  have "encode_teams d1 = Inr (d1 @ dummies ''home'' hs @ dummies ''away'' ws)"
    using h1 a1 tcol by (simp add: encode_teams_def)
  with d1 ths show ?thesis by simp
qed

lemma encode_teams_ex: "encode_teams teams_ex = Inr encoded_ex"
  by code_simp

lemma encode_encoded_ex:
  "encode_teams encoded_ex = Inr (encoded_ex @ [(''home_A'', [Num 1]), (''away_B'', [Num 1])])"
  by code_simp

theorem encode_teams_twice_witness:
  "encode_teams teams_ex = Inr encoded_ex \<and>
   Str ''team'' \<notin> set (the_col teams_ex ''home_team'') \<and>
   Str ''team'' \<notin> set (the_col teams_ex ''away_team'') \<and>
   (\<exists>new. encoded_ex = teams_ex @ new \<and> encode_teams encoded_ex = Inr (encoded_ex @ new))"
proof -
  have h: "Str ''team'' \<notin> set (the_col teams_ex ''home_team'')"
    by (simp add: teams_ex_def the_col_def cols_named_def)
  have a: "Str ''team'' \<notin> set (the_col teams_ex ''away_team'')"
    by (simp add: teams_ex_def the_col_def cols_named_def)
  from encode_teams_twice[OF encode_teams_ex h a] encode_teams_ex h a
  show ?thesis by blast
qed

theorem encode_teams_not_idempotent_counterexample:
  "encode_teams teams_ex = Inr encoded_ex \<and>
   encode_teams encoded_ex \<noteq> Inr encoded_ex \<and>
   cols_named encoded_ex ''home_A'' = [[Num 1]] \<and>
   (\<exists>d2. encode_teams encoded_ex = Inr d2 \<and> cols_named d2 ''home_A'' = [[Num 1], [Num 1]])"
  by (simp add: encode_teams_ex encode_encoded_ex) (simp add: encoded_ex_def teams_ex_def cols_named_def)

lemma encode_teams_appends:
  assumes "encode_teams df = Inr d"
  shows "take (length df) d = df \<and> (\<forall>c \<in> set identity_columns. the_col d c = the_col df c)"
proof -
  from assms obtain hs ws where
    hs: "getcol df ''home_team'' = Inr hs" and ws: "getcol df ''away_team'' = Inr ws" and
    d: "d = df @ dummies ''home'' hs @ dummies ''away'' ws"
    by (auto simp: encode_teams_def bind_res_Inr split: if_splits)
  have h: "cols_named df ''home_team'' \<noteq> []" and a: "cols_named df ''away_team'' \<noteq> []"
    using hs ws by (auto simp: getcol_def split: list.splits)
  have "cols_named (dummies ''home'' hs) ''date'' = []" "cols_named (dummies ''away'' ws) ''date'' = []"
    by (simp_all add: cols_named_dummies_none)
  then have "the_col d ''date'' = the_col df ''date''"
    by (simp add: d the_col_def cols_named_append)
  moreover have "the_col d ''home_team'' = the_col df ''home_team''"
    using h by (simp add: d the_col_def cols_named_append split: list.splits)
  moreover have "the_col d ''away_team'' = the_col df ''away_team''"
    using a by (simp add: d the_col_def cols_named_append split: list.splits)
  ultimately show ?thesis by (simp add: d identity_columns_def)
qed

subsection \<open>Comparison features\<close>

lemma difference_numeric:
  assumes "numeric_column df a" and "numeric_column df b"
  shows "difference df a b = Inr (map (\<lambda>(x, y). sub_cell x y) (zip (the_col df a) (the_col df b)))"
proof -
  from assms obtain xs ys where
    xs: "getcol df a = Inr xs" "list_all is_numeric xs" and
    ys: "getcol df b = Inr ys" "list_all is_numeric ys"
    by (auto simp: numeric_column_def split: sum.splits)
  then show ?thesis
    by (simp add: difference_def getcol_the_col)
qed

lemma num_of_sub_cell:
  "is_numeric x \<Longrightarrow> is_numeric y \<Longrightarrow> num_of (sub_cell x y) = minus_opt (num_of x) (num_of y)"
  by (cases x; cases y) auto

lemma difference_at:
  assumes "list_all is_numeric xs" and "list_all is_numeric ys"
  shows "num_of (let zs = map (\<lambda>(x, y). sub_cell x y) (zip xs ys) in
                 if i < length zs then zs ! i else NaN)
         = minus_opt (num_of (if i < length xs then xs ! i else NaN))
                     (num_of (if i < length ys then ys ! i else NaN))"
proof (cases "i < length xs \<and> i < length ys")
  case True
  then have "is_numeric (xs ! i)" "is_numeric (ys ! i)"
    using assms by (auto simp: list_all_length)
  with True show ?thesis by (simp add: num_of_sub_cell)
next
  case False
  then show ?thesis by (cases "num_of (xs ! i)"; cases "num_of (ys ! i)") auto
qed

lemma numeric_the_col: "numeric_column df c \<Longrightarrow> list_all is_numeric (the_col df c)"
  by (auto simp: numeric_column_def getcol_the_col split: sum.splits)

lemma feature_difference:
  assumes "numeric_column df a" and "numeric_column df b"
    and "the_col d c = map (\<lambda>(x, y). sub_cell x y) (zip (the_col df a) (the_col df b))"
  shows "feature d c i = minus_opt (feature df a i) (feature df b i)"
  using difference_at[OF numeric_the_col[OF assms(1)] numeric_the_col[OF assms(2)], of i]
  by (simp add: feature_def cell_at_def assms(3) Let_def)

text \<open>
  Claim C5. On an enriched table the generator succeeds and writes five columns. In every
  row, the form, goals, expected-goals and possession differences are the home rolling
  value minus the away one, the defensive difference is the away goals-conceded value
  minus the home one, and a difference is missing as soon as one of its operands is.
  The five labels are the only ones added, and no column under another label changes.
\<close>

theorem comparison_features_are_differences:
  assumes "enriched df"
  shows "\<exists>d. create_comparison_features df = Inr d \<and>
     (\<forall>i. feature d ''form_difference'' i =
            minus_opt (feature df ''home_form_last_5'' i) (feature df ''away_form_last_5'' i) \<and>
          feature d ''goals_difference'' i =
            minus_opt (feature df ''home_avg_goals_last_5'' i) (feature df ''away_avg_goals_last_5'' i) \<and>
          feature d ''xg_difference'' i =
            minus_opt (feature df ''home_avg_xg_last_5'' i) (feature df ''away_avg_xg_last_5'' i) \<and>
          feature d ''poss_difference'' i =
            minus_opt (feature df ''home_avg_poss_last_5'' i) (feature df ''away_avg_poss_last_5'' i) \<and>
          feature d ''defensive_difference'' i =
            minus_opt (feature df ''away_avg_goals_conceded_last_5'' i)
                      (feature df ''home_avg_goals_conceded_last_5'' i)) \<and>
     columns d = columns df @ filter (\<lambda>c. c \<notin> set (columns df)) difference_columns \<and>
     (\<forall>c. c \<notin> set difference_columns \<longrightarrow> cols_named d c = cols_named df c)"
proof -
  let ?sub = "\<lambda>a b. map (\<lambda>(x, y). sub_cell x y) (zip (the_col df a) (the_col df b))"
  let ?d = "setcol (setcol (setcol (setcol (setcol df
              ''form_difference'' (?sub ''home_form_last_5'' ''away_form_last_5''))
              ''goals_difference'' (?sub ''home_avg_goals_last_5'' ''away_avg_goals_last_5''))
              ''xg_difference'' (?sub ''home_avg_xg_last_5'' ''away_avg_xg_last_5''))
              ''poss_difference'' (?sub ''home_avg_poss_last_5'' ''away_avg_poss_last_5''))
              ''defensive_difference''
                 (?sub ''away_avg_goals_conceded_last_5'' ''home_avg_goals_conceded_last_5'')"
  from assms have num:
    "numeric_column df ''home_form_last_5''" "numeric_column df ''away_form_last_5''"
    "numeric_column df ''home_avg_goals_last_5''" "numeric_column df ''away_avg_goals_last_5''"
    "numeric_column df ''home_avg_xg_last_5''" "numeric_column df ''away_avg_xg_last_5''"
    "numeric_column df ''home_avg_poss_last_5''" "numeric_column df ''away_avg_poss_last_5''"
    "numeric_column df ''away_avg_goals_conceded_last_5''"
    "numeric_column df ''home_avg_goals_conceded_last_5''"
    by (simp_all add: enriched_def compared_columns_def)
  have run: "create_comparison_features df = Inr ?d"
    by (simp add: create_comparison_features_def difference_numeric num)
  have c1: "the_col ?d ''form_difference'' = ?sub ''home_form_last_5'' ''away_form_last_5''"
    by (simp add: the_col_setcol_other the_col_setcol_same)
  have c2: "the_col ?d ''goals_difference'' = ?sub ''home_avg_goals_last_5'' ''away_avg_goals_last_5''"
    by (simp add: the_col_setcol_other the_col_setcol_same)
  have c3: "the_col ?d ''xg_difference'' = ?sub ''home_avg_xg_last_5'' ''away_avg_xg_last_5''"
    by (simp add: the_col_setcol_other the_col_setcol_same)
  have c4: "the_col ?d ''poss_difference'' = ?sub ''home_avg_poss_last_5'' ''away_avg_poss_last_5''"
    by (simp add: the_col_setcol_other the_col_setcol_same)
  have c5: "the_col ?d ''defensive_difference'' =
              ?sub ''away_avg_goals_conceded_last_5'' ''home_avg_goals_conceded_last_5''"
    by (simp add: the_col_setcol_other the_col_setcol_same)
  have cols: "columns ?d = columns df @ filter (\<lambda>c. c \<notin> set (columns df)) difference_columns"
    by (simp add: columns_setcol difference_columns_def)
  have other: "cols_named ?d c = cols_named df c" if "c \<notin> set difference_columns" for c
    using that by (simp add: cols_named_setcol_other difference_columns_def)
  show ?thesis
    apply (rule exI[of _ ?d])
    apply (intro conjI allI impI)
           apply (rule run)
          apply (rule feature_difference[OF num(1) num(2) c1])
         apply (rule feature_difference[OF num(3) num(4) c2])
        apply (rule feature_difference[OF num(5) num(6) c3])
       apply (rule feature_difference[OF num(7) num(8) c4])
      apply (rule feature_difference[OF num(9) num(10) c5])
     apply (rule cols)
    apply (erule other)
    done
qed

lemma enriched_enriched_ex: "enriched enriched_ex"
  by (simp add: enriched_def compared_columns_def numeric_column_def getcol_def cols_named_def
        enriched_ex_def)

lemma features_enriched_ex:
  "feature enriched_ex ''home_form_last_5'' 0 = Some 1"
  "feature enriched_ex ''away_form_last_5'' 0 = Some (2 / 5)"
  "feature enriched_ex ''home_form_last_5'' 1 = None"
  "feature enriched_ex ''away_form_last_5'' 1 = Some 1"
  "feature enriched_ex ''away_avg_goals_conceded_last_5'' 0 = Some 2"
  "feature enriched_ex ''home_avg_goals_conceded_last_5'' 0 = Some (1 / 2)"
  by (simp_all add: feature_def cell_at_def the_col_def cols_named_def enriched_ex_def)

theorem comparison_features_are_differences_witness:
  "enriched enriched_ex \<and>
   (\<exists>d. create_comparison_features enriched_ex = Inr d \<and>
        feature d ''form_difference'' 0 = Some (3 / 5) \<and>
        feature d ''form_difference'' 1 = None \<and>
        feature d ''defensive_difference'' 0 = Some (3 / 2))"
proof -
  from comparison_features_are_differences[OF enriched_enriched_ex]
  obtain d where d: "create_comparison_features enriched_ex = Inr d"
    and f: "\<And>i. feature d ''form_difference'' i =
            minus_opt (feature enriched_ex ''home_form_last_5'' i)
                      (feature enriched_ex ''away_form_last_5'' i)"
    and g: "\<And>i. feature d ''defensive_difference'' i =
            minus_opt (feature enriched_ex ''away_avg_goals_conceded_last_5'' i)
                      (feature enriched_ex ''home_avg_goals_conceded_last_5'' i)"
    by blast
  have "feature d ''form_difference'' 0 = Some (3 / 5)"
    by (simp add: f features_enriched_ex)
  moreover have "feature d ''form_difference'' 1 = None"
    using f[of 1] features_enriched_ex by simp
  moreover have "feature d ''defensive_difference'' 0 = Some (3 / 2)"
    by (simp add: g features_enriched_ex)
  ultimately show ?thesis using d enriched_enriched_ex by blast
qed

lemma create_comparison_features_other:
  assumes "create_comparison_features df = Inr d" and "c \<notin> set difference_columns"
  shows "cols_named d c = cols_named df c"
proof -
  from assms(1) obtain x1 x2 x3 x4 x5 where
    d: "d = setcol (setcol (setcol (setcol (setcol df
              ''form_difference'' x1) ''goals_difference'' x2) ''xg_difference'' x3)
              ''poss_difference'' x4) ''defensive_difference'' x5"
    unfolding create_comparison_features_def bind_res_Inr by blast
  from assms(2) have "c \<noteq> ''form_difference''" "c \<noteq> ''goals_difference''"
    "c \<noteq> ''xg_difference''" "c \<noteq> ''poss_difference''" "c \<noteq> ''defensive_difference''"
    by (simp_all add: difference_columns_def)
  then show ?thesis
    unfolding d by (simp add: cols_named_setcol_other)
qed

subsection \<open>Cleaning\<close>

text \<open>
  Claim C9. With no list given, \<open>clean_data\<close> never raises and returns the table without
  the columns labelled season, home_formation and away_formaation; a column labelled
  away_formation stays, as does every column under any other label.
\<close>

theorem clean_data_default:
  "\<exists>d. clean_data df None = Inr d \<and>
       d = filter (\<lambda>p. fst p \<notin> {''season'', ''home_formation'', ''away_formaation''}) df \<and>
       cols_named d ''away_formation'' = cols_named df ''away_formation'' \<and>
       (\<forall>c. c \<notin> {''season'', ''home_formation'', ''away_formaation''} \<longrightarrow>
            cols_named d c = cols_named df c)"
proof -
  define dflt where "dflt = [''season'', ''home_formation'', ''away_formaation'']"
  define cs where "cs = filter (\<lambda>col. col \<in> set (columns df)) dflt"
  have same: "filter (\<lambda>p. fst p \<notin> set cs) df = filter (\<lambda>p. fst p \<notin> set dflt) df"
    by (rule filter_cong) (auto simp: cs_def columns_def)
  have nomiss: "filter (\<lambda>c. c \<notin> set (columns df)) cs = []"
    by (simp add: cs_def )
  have run: "clean_data df None = Inr (filter (\<lambda>p. fst p \<notin> set dflt) df)"
  proof (cases "cs = []")
    case True
    then have "filter (\<lambda>p. fst p \<notin> set cs) df = df" by simp
    with same True show ?thesis
      by (simp add: clean_data_def cs_def dflt_def Let_def)
  next
    case False
    with same nomiss show ?thesis
      by (simp add: clean_data_def drop_columns_def cs_def[symmetric] dflt_def[symmetric] Let_def)
  qed
  have other: "\<And>c. c \<notin> set dflt \<Longrightarrow>
      cols_named (filter (\<lambda>p. fst p \<notin> set dflt) df) c = cols_named df c"
    unfolding cols_named_def filter_filter
    by (rule arg_cong[where f = "map snd"], rule filter_cong) auto
  show ?thesis
    using run other[of "''away_formation''"] other by (simp add: dflt_def)
qed

theorem clean_data_default_witness:
  "clean_data [(''season'', [Num 2021]), (''away_formation'', [Str ''4-4-2'']),
               (''home_team'', [Str ''A''])] None
     = Inr [(''away_formation'', [Str ''4-4-2'']), (''home_team'', [Str ''A''])]"
  using clean_data_default[of "[(''season'', [Num 2021]), (''away_formation'', [Str ''4-4-2'']),
               (''home_team'', [Str ''A''])]"]
  by simp

lemma clean_data_None_result:
  "clean_data df None =
     Inr (filter (\<lambda>p. fst p \<notin> {''season'', ''home_formation'', ''away_formaation''}) df)"
proof -
  define dflt where "dflt = [''season'', ''home_formation'', ''away_formaation'']"
  define cs where "cs = filter (\<lambda>col. col \<in> set (columns df)) dflt"
  have same: "filter (\<lambda>p. fst p \<notin> set cs) df = filter (\<lambda>p. fst p \<notin> set dflt) df"
    by (rule filter_cong) (auto simp: cs_def columns_def)
  have nomiss: "filter (\<lambda>c. c \<notin> set (columns df)) cs = []"
    by (simp add: cs_def)
  have "clean_data df None = Inr (filter (\<lambda>p. fst p \<notin> set dflt) df)"
  proof (cases "cs = []")
    case True
    then have "filter (\<lambda>p. fst p \<notin> set cs) df = df" by simp
    with same True show ?thesis
      by (simp add: clean_data_def cs_def dflt_def Let_def)
  next
    case False
    with same nomiss show ?thesis
      by (simp add: clean_data_def drop_columns_def cs_def[symmetric] dflt_def[symmetric] Let_def)
  qed
  then show ?thesis by (simp add: dflt_def)
qed

lemma clean_data_None_other:
  assumes "clean_data df None = Inr d"
      and "c \<notin> {''season'', ''home_formation'', ''away_formaation''}"
  shows "cols_named d c = cols_named df c"
proof -
  from assms(1) have d: "d = filter (\<lambda>p. fst p \<notin> {''season'', ''home_formation'', ''away_formaation''}) df"
    by (simp add: clean_data_None_result)
  show ?thesis
    unfolding d cols_named_def filter_filter
    using assms(2) by (intro arg_cong[where f = "map snd"] filter_cong) auto
qed

subsection \<open>The identity fields\<close>

lemma identity_not_feature: "c \<in> set identity_columns \<Longrightarrow> c \<notin> set feature_labels"
  by (auto simp: identity_columns_def feature_labels_def rolling_labels_def)

lemma identity_not_difference: "c \<in> set identity_columns \<Longrightarrow> c \<notin> set difference_columns"
  by (auto simp: identity_columns_def difference_columns_def)

lemma identity_not_dropped:
  "c \<in> set identity_columns \<Longrightarrow> c \<notin> {''season'', ''home_formation'', ''away_formaation''}"
  by (auto simp: identity_columns_def)

text \<open>
  Claim C8. Each of the four stages, when it returns, leaves the date, the home team and
  the away team of every fixture as they were. Rolling-feature construction changes no
  column outside its sixteen feature labels, encoding only appends columns,
  comparison-feature generation changes no column outside its five labels, and cleaning
  only removes the columns labelled season, home_formation and away_formaation. So the
  identity fields come out of the chain of the four stages as they went in.
\<close>

theorem identity_fields_are_kept:
  "(\<forall>d. create_rolling_features srt df = Inr d \<longrightarrow>
        (\<forall>c. c \<notin> set feature_labels \<longrightarrow> cols_named d c = cols_named df c) \<and>
        (\<forall>c \<in> set identity_columns. the_col d c = the_col df c)) \<and>
   (\<forall>d. encode_teams df = Inr d \<longrightarrow>
        take (length df) d = df \<and>
        (\<forall>c \<in> set identity_columns. the_col d c = the_col df c)) \<and>
   (\<forall>d. create_comparison_features df = Inr d \<longrightarrow>
        (\<forall>c. c \<notin> set difference_columns \<longrightarrow> cols_named d c = cols_named df c) \<and>
        (\<forall>c \<in> set identity_columns. the_col d c = the_col df c)) \<and>
   (\<forall>d. clean_data df None = Inr d \<longrightarrow>
        (\<forall>c. c \<notin> {''season'', ''home_formation'', ''away_formaation''} \<longrightarrow>
             cols_named d c = cols_named df c) \<and>
        (\<forall>c \<in> set identity_columns. the_col d c = the_col df c)) \<and>
   (\<forall>d. feature_stages srt df = Inr d \<longrightarrow>
        (\<forall>c \<in> set identity_columns. the_col d c = the_col df c))"
proof -
  have rolling: "the_col d c = the_col df c"
    if "create_rolling_features srt df = Inr d" "c \<in> set identity_columns" for df d c
    using that by (intro the_col_cong create_rolling_features_other identity_not_feature)
  have comparison: "the_col d c = the_col df c"
    if "create_comparison_features df = Inr d" "c \<in> set identity_columns" for df d c
    using that by (intro the_col_cong create_comparison_features_other identity_not_difference)
  have cleaning: "the_col d c = the_col df c"
    if "clean_data df None = Inr d" "c \<in> set identity_columns" for df d c
    using that by (intro the_col_cong clean_data_None_other identity_not_dropped)
  have encoding: "the_col d c = the_col df c"
    if "encode_teams df = Inr d" "c \<in> set identity_columns" for df d c
    using encode_teams_appends[OF that(1)] that(2) by blast
  have chain: "the_col d c = the_col df c"
    if "feature_stages srt df = Inr d" "c \<in> set identity_columns" for d c
  proof -
    from that(1) obtain d1 d2 d3 where
      "create_rolling_features srt df = Inr d1" "encode_teams d1 = Inr d2"
      "create_comparison_features d2 = Inr d3" "clean_data d3 None = Inr d"
      unfolding feature_stages_def bind_res_Inr by blast
    with that(2) show ?thesis
      using rolling[of df d1 c] encoding[of d1 d2 c] comparison[of d2 d3 c] cleaning[of d3 d c]
      by simp
  qed
  show ?thesis
  proof (intro conjI allI impI ballI)
    fix d c assume "create_rolling_features srt df = Inr d" "c \<notin> set feature_labels"
    then show "cols_named d c = cols_named df c" by (rule create_rolling_features_other)
  next
    fix d c assume "create_rolling_features srt df = Inr d" "c \<in> set identity_columns"
    then show "the_col d c = the_col df c" by (rule rolling)
  next
    fix d assume "encode_teams df = Inr d"
    then show "take (length df) d = df" using encode_teams_appends by blast
  next
    fix d c assume "encode_teams df = Inr d" "c \<in> set identity_columns"
    then show "the_col d c = the_col df c" by (rule encoding)
  next
    fix d c assume "create_comparison_features df = Inr d" "c \<notin> set difference_columns"
    then show "cols_named d c = cols_named df c" by (rule create_comparison_features_other)
  next
    fix d c assume "create_comparison_features df = Inr d" "c \<in> set identity_columns"
    then show "the_col d c = the_col df c" by (rule comparison)
  next
    fix d c assume "clean_data df None = Inr d"
      "c \<notin> {''season'', ''home_formation'', ''away_formaation''}"
    then show "cols_named d c = cols_named df c" by (rule clean_data_None_other)
  next
    fix d c assume "clean_data df None = Inr d" "c \<in> set identity_columns"
    then show "the_col d c = the_col df c" by (rule cleaning)
  next
    fix d c assume "feature_stages srt df = Inr d" "c \<in> set identity_columns"
    then show "the_col d c = the_col df c" by (rule chain)
  qed
qed

lemma feature_stages_two_fixtures:
  "case feature_stages stable_by_date two_fixtures of Inl e \<Rightarrow> False | Inr d \<Rightarrow> True"
  by code_simp

theorem identity_fields_are_kept_witness:
  "\<exists>d. feature_stages stable_by_date two_fixtures = Inr d \<and>
       the_col d ''date'' = [Date 1, Date 2] \<and>
       the_col d ''home_team'' = [Str ''A'', Str ''B''] \<and>
       the_col d ''away_team'' = [Str ''B'', Str ''A'']"
proof -
  from feature_stages_two_fixtures obtain d where d: "feature_stages stable_by_date two_fixtures = Inr d"
    by (auto split: sum.splits)
  from identity_fields_are_kept[of stable_by_date two_fixtures] d
  have "\<forall>c \<in> set identity_columns. the_col d c = the_col two_fixtures c"
    by blast
  then have "the_col d ''date'' = the_col two_fixtures ''date''"
    "the_col d ''home_team'' = the_col two_fixtures ''home_team''"
    "the_col d ''away_team'' = the_col two_fixtures ''away_team''"
    by (simp_all add: identity_columns_def)
  then show ?thesis
    using d by (simp add: two_fixtures_def the_col_def cols_named_def)
qed

end
